theory Spec2Isabelle
  imports Complex_Main "HOL-Library.Product_Lexorder"
begin

section \<open>Conventions of the embedding\<close>

text \<open>
  The light bar controller is Python. Its floats are modelled by the reals. Where a
  property rests on comparisons and on which branch is taken, the arithmetic is exact;
  where it rests on the very value a float operation returns (the brightness a fade
  returns, the integer a colour channel is cut to, the brightness a control document
  sets), the operation is followed by \<open>fl\<close>, the rounding of IEEE double precision.
  Infinities and NaN are outside the model.
  A call of \<^verbatim>\<open>time.time()\<close> is an explicit argument (\<open>now\<close>, \<open>current_time\<close>),
  an object's attributes are the fields of a record that is passed in and returned, and
  a raised exception is the left summand of the result.
\<close>

datatype py_error = ZeroDivisionError | IndexError | ValueError | KeyError | RuntimeError

text \<open>Python's \<^verbatim>\<open>int(x)\<close> on a float truncates towards zero.\<close>

definition py_int :: "real \<Rightarrow> int" where
  "py_int x = (if 0 \<le> x then \<lfloor>x\<rfloor> else \<lceil>x\<rceil>)"

text \<open>Float division raises on a zero divisor.\<close>

definition py_div :: "real \<Rightarrow> real \<Rightarrow> py_error + real" where
  "py_div a b = (if b = 0 then Inl ZeroDivisionError else Inr (a / b))"

section \<open>Double-precision arithmetic\<close>

text \<open>Rounding to the nearest integer, a tie going to the even one.\<close>

definition rne :: "real \<Rightarrow> int" where
  "rne y =
     (let f = \<lfloor>y\<rfloor>; d = y - of_int f
      in if d < 1 / 2 then f else if 1 / 2 < d then f + 1 else if even f then f else f + 1)"

text \<open>The exponent of the binade of \<open>x\<close> (not below that of the smallest normal double),
  and the spacing of the doubles there: 53 significant bits.\<close>

definition binade :: "real \<Rightarrow> int" where
  "binade x = max \<lfloor>log 2 \<bar>x\<bar>\<rfloor> (- 1022)"

definition quantum :: "real \<Rightarrow> real" where
  "quantum x = 2 powr (of_int (binade x) - 52)"

text \<open>\<open>fl x\<close> is the double nearest to \<open>x\<close>, ties to the even significand: what an IEEE
  operation returns for the exact result \<open>x\<close>, and what a decimal literal denotes.
  Overflow to infinity is not modelled.\<close>

definition fl :: "real \<Rightarrow> real" where
  "fl x = (if x = 0 then 0 else sgn x * (quantum x * of_int (rne (\<bar>x\<bar> / quantum x))))"

definition fadd :: "real \<Rightarrow> real \<Rightarrow> real" where
  "fadd a b = fl (a + b)"

definition fsub :: "real \<Rightarrow> real \<Rightarrow> real" where
  "fsub a b = fl (a - b)"

definition fmul :: "real \<Rightarrow> real \<Rightarrow> real" where
  "fmul a b = fl (a * b)"

definition fdiv :: "real \<Rightarrow> real \<Rightarrow> py_error + real" where
  "fdiv a b = (if b = 0 then Inl ZeroDivisionError else Inr (fl (a / b)))"

text \<open>\<^verbatim>\<open>math.pi\<close> is the double 3.141592653589793. \<^verbatim>\<open>math.sin\<close> is the sine of the C
  library, taken here as the correctly rounded sine.\<close>

definition math_pi :: real where
  "math_pi = 884279719003555 / 2 ^ 48"

definition math_sin :: "real \<Rightarrow> real" where
  "math_sin x = fl (sin x)"

section \<open>Randomness engine (core/randomness.py)\<close>

definition calculate_randomness :: "real \<Rightarrow> real \<Rightarrow> real \<Rightarrow> real" where
  "calculate_randomness cpu_percent ram_percent temperature =
     (let cpu_normalized = min (cpu_percent / 100.0) 1.0;
          ram_normalized = min (ram_percent / 100.0) 1.0;
          base_load = (cpu_normalized * 0.6) + (ram_normalized * 0.4);
          temp_bonus = (if temperature > 70 then min ((temperature - 70) / 15.0) 1.0 else 0.0);
          randomness = 1.0 + (base_load * 3.0) + temp_bonus
      in max 1.0 (min 5.0 randomness))"


text \<open>Python list indexing: a negative index counts from the end, anything else out of
  range raises \<^verbatim>\<open>IndexError\<close>.\<close>

definition py_index :: "'a list \<Rightarrow> int \<Rightarrow> py_error + 'a" where
  "py_index xs i =
     (let k = (if i < 0 then i + int (length xs) else i)
      in if k < 0 \<or> int (length xs) \<le> k then Inl IndexError else Inr (xs ! nat k))"

section \<open>Effect registry (core/effects.py)\<close>

text \<open>An effect instance is modelled by its class; its private animation state and the
  frames it draws are not part of the model.\<close>

datatype effect =
    SystemPulseEffect | LoadRainbowEffect | RandomSparkleEffect
  | ThermalGradientEffect | LoadBarsEffect

definition EFFECTS :: "string \<Rightarrow> effect option" where
  "EFFECTS effect_name =
     (if effect_name = ''system_pulse'' then Some SystemPulseEffect
      else if effect_name = ''load_rainbow'' then Some LoadRainbowEffect
      else if effect_name = ''random_sparkle'' then Some RandomSparkleEffect
      else if effect_name = ''thermal_gradient'' then Some ThermalGradientEffect
      else if effect_name = ''load_bars'' then Some LoadBarsEffect
      else None)"

definition create_effect :: "string \<Rightarrow> py_error + effect" where
  "create_effect effect_name =
     (case EFFECTS effect_name of None \<Rightarrow> Inl ValueError | Some cls \<Rightarrow> Inr cls)"

section \<open>Fade controller (core/scheduler.py, class FadeController)\<close>

record FadeController =
  fading :: bool
  fade_start :: real
  fade_duration :: real
  fade_from :: real
  fade_to :: real

definition FadeController_init :: FadeController where
  "FadeController_init =
     \<lparr>fading = False, fade_start = 0, fade_duration = 0, fade_from = 0.0, fade_to = 0.0\<rparr>"

definition start_fade :: "real \<Rightarrow> real \<Rightarrow> real \<Rightarrow> real \<Rightarrow> FadeController \<Rightarrow> FadeController" where
  "start_fade from_brightness to_brightness duration now s =
     s\<lparr>fading := True, fade_start := now, fade_duration := duration,
       fade_from := from_brightness, fade_to := to_brightness\<rparr>"

text \<open>\<^verbatim>\<open>FadeController.update\<close>. The only statement that can raise is the division, which
  comes before any assignment, so an exception leaves the object as it was. This is the
  method in exact arithmetic; it says when a session ends and what is returned then.\<close>

definition FadeController_update ::
  "real \<Rightarrow> FadeController \<Rightarrow> py_error + (real option \<times> FadeController)" where
  "FadeController_update now s =
     (if \<not> fading s then Inr (None, s)
      else
        let elapsed = now - fade_start s in
        case py_div elapsed (fade_duration s) of
          Inl e \<Rightarrow> Inl e
        | Inr q \<Rightarrow>
            let progress = min 1.0 q;
                smooth_progress = (sin ((progress - 0.5) * pi) + 1) / 2;
                current_brightness = fade_from s + (fade_to s - fade_from s) * smooth_progress
            in if progress \<ge> 1.0 then Inr (Some (fade_to s), s\<lparr>fading := False\<rparr>)
               else Inr (Some current_brightness, s))"

text \<open>The same method with every float operation rounded: the brightness values a
  caller reads are these.\<close>

definition FadeController_update_double ::
  "real \<Rightarrow> FadeController \<Rightarrow> py_error + (real option \<times> FadeController)" where
  "FadeController_update_double now s =
     (if \<not> fading s then Inr (None, s)
      else
        let elapsed = fsub now (fade_start s) in
        case fdiv elapsed (fade_duration s) of
          Inl e \<Rightarrow> Inl e
        | Inr q \<Rightarrow>
            let progress = min 1.0 q;
                smooth_progress =
                  fl (fadd (math_sin (fmul (fsub progress 0.5) math_pi)) 1 / 2);
                current_brightness =
                  fadd (fade_from s) (fmul (fsub (fade_to s) (fade_from s)) smooth_progress)
            in if progress \<ge> 1.0 then Inr (Some (fade_to s), s\<lparr>fading := False\<rparr>)
               else Inr (Some current_brightness, s))"

definition is_fading :: "FadeController \<Rightarrow> bool" where
  "is_fading s = fading s"

text \<open>The main loop calls \<^verbatim>\<open>update()\<close> once per iteration: \<open>update_calls\<close> runs the
  calls made at the successive clock readings \<open>ts\<close> and collects what they return.\<close>

fun update_calls ::
  "real list \<Rightarrow> FadeController \<Rightarrow> py_error + (real option list \<times> FadeController)" where
  "update_calls [] s = Inr ([], s)"
| "update_calls (t # ts) s =
     (case FadeController_update t s of
        Inl e \<Rightarrow> Inl e
      | Inr (r, s') \<Rightarrow>
          (case update_calls ts s' of
             Inl e \<Rightarrow> Inl e
           | Inr (rs, s'') \<Rightarrow> Inr (r # rs, s'')))"

section \<open>Schedule window (core/scheduler.py, class Scheduler)\<close>

text \<open>A \<^verbatim>\<open>datetime.time\<close> value. Two naive times compare as the tuples
  (hour, minute, second, microsecond).\<close>

record dtime =
  hour :: nat
  minute :: nat
  second :: nat
  microsecond :: nat

definition dtime_key :: "dtime \<Rightarrow> nat \<times> nat \<times> nat \<times> nat" where
  "dtime_key t = (hour t, minute t, second t, microsecond t)"

definition dtime_le :: "dtime \<Rightarrow> dtime \<Rightarrow> bool" where
  "dtime_le a b = (dtime_key a \<le> dtime_key b)"

definition dtime_lt :: "dtime \<Rightarrow> dtime \<Rightarrow> bool" where
  "dtime_lt a b = (dtime_key a < dtime_key b)"

text \<open>The range check of the \<^verbatim>\<open>datetime.time\<close> constructor.\<close>

definition valid_dtime :: "dtime \<Rightarrow> bool" where
  "valid_dtime t = (hour t < 24 \<and> minute t < 60 \<and> second t < 60 \<and> microsecond t < 1000000)"

definition hm :: "nat \<Rightarrow> nat \<Rightarrow> dtime" where
  "hm h m = \<lparr>hour = h, minute = m, second = 0, microsecond = 0\<rparr>"

text \<open>The fields of the scheduler that the window test reads.\<close>

record Scheduler =
  enabled :: bool
  start_time :: dtime
  end_time :: dtime

text \<open>\<open>clock\<close> is what \<^verbatim>\<open>get_current_time()\<close> returns when no time is passed.\<close>

definition is_within_schedule :: "dtime option \<Rightarrow> dtime \<Rightarrow> Scheduler \<Rightarrow> bool" where
  "is_within_schedule current_time clock s =
     (let t = (case current_time of None \<Rightarrow> clock | Some ct \<Rightarrow> ct)
      in if dtime_le (start_time s) (end_time s)
         then dtime_le (start_time s) t \<and> dtime_lt t (end_time s)
         else dtime_le (start_time s) t \<or> dtime_lt t (end_time s))"

text \<open>The window as the specification words it, over a time of day counted in
  microseconds since midnight.\<close>

definition time_of_day :: "dtime \<Rightarrow> nat" where
  "time_of_day t = ((hour t * 60 + minute t) * 60 + second t) * 1000000 + microsecond t"

definition spec_inside_window :: "nat \<Rightarrow> nat \<Rightarrow> nat \<Rightarrow> bool" where
  "spec_inside_window start end' t =
     (if start \<le> end' then start \<le> t \<and> t < end' else start \<le> t \<or> t < end')"


section \<open>Telemetry health (core/oled_sync.py, class OLEDSync)\<close>

definition STALE_THRESHOLD :: real where
  "STALE_THRESHOLD = 5.0"

text \<open>The shared telemetry document, as far as the health check reads it: the
  \<^verbatim>\<open>timestamp\<close> key, which may be absent.\<close>

record telemetry_doc =
  timestamp :: "real option"

text \<open>What opening and parsing the shared state file can come to: the file does not
  exist, \<^verbatim>\<open>json.load\<close> raises \<^verbatim>\<open>JSONDecodeError\<close>, anything else raises (an I/O error,
  a document that is no object, a timestamp that is no number), or a document is read.\<close>

datatype file_read = NotExists | DecodeFails | OtherFails | Document telemetry_doc

record OLEDSync =
  last_health_status :: "(bool \<times> telemetry_doc option) option"
  last_check_time :: real
  check_interval :: real
  oled_recovery_flash_until :: real

definition OLEDSync_init :: OLEDSync where
  "OLEDSync_init =
     \<lparr>last_health_status = None, last_check_time = 0, check_interval = 5.0,
      oled_recovery_flash_until = 0\<rparr>"

text \<open>The test \<^verbatim>\<open>self.last_health_status is None or self.last_health_status[0]\<close>.\<close>

definition none_or_healthy :: "(bool \<times> telemetry_doc option) option \<Rightarrow> bool" where
  "none_or_healthy st = (case st of None \<Rightarrow> True | Some v \<Rightarrow> fst v)"

definition check_oled_health ::
  "real \<Rightarrow> file_read \<Rightarrow> OLEDSync \<Rightarrow> (bool \<times> telemetry_doc option) \<times> OLEDSync" where
  "check_oled_health current_time file s =
     (if current_time - last_check_time s < check_interval s
      then ((case last_health_status s of None \<Rightarrow> (True, None) | Some v \<Rightarrow> v), s)
      else
        let s1 = s\<lparr>last_check_time := current_time\<rparr> in
        case file of
          NotExists \<Rightarrow>
            ((False, None),
             if none_or_healthy (last_health_status s1)
             then s1\<lparr>last_health_status := Some (False, None)\<rparr> else s1)
        | DecodeFails \<Rightarrow> ((False, None), s1)
        | OtherFails \<Rightarrow> ((False, None), s1)
        | Document state \<Rightarrow>
            let ts = (case timestamp state of None \<Rightarrow> 0 | Some v \<Rightarrow> v);
                age = current_time - ts
            in if age > STALE_THRESHOLD
               then ((False, Some state),
                     if none_or_healthy (last_health_status s1)
                     then s1\<lparr>last_health_status := Some (False, Some state)\<rparr> else s1)
               else
                 let is_healthy = True;
                     was_healthy = none_or_healthy (last_health_status s1);
                     s2 = (if \<not> was_healthy \<and> is_healthy
                           then s1\<lparr>oled_recovery_flash_until := current_time + 2.0\<rparr>
                           else s1)
                 in ((is_healthy, Some state),
                     s2\<lparr>last_health_status := Some (is_healthy, Some state)\<rparr>))"

definition is_showing_recovery_flash :: "real \<Rightarrow> OLEDSync \<Rightarrow> bool" where
  "is_showing_recovery_flash now s = (now < oled_recovery_flash_until s)"

section \<open>Brightness wrapper (core/brightness_wrapper.py)\<close>

text \<open>The calls the wrapper makes on the wrapped \<^verbatim>\<open>CubeNano\<close>, in the order made. A call
  is recorded when it is made, whether or not the bus write behind it succeeds.\<close>

datatype bot_call = SetRGB int int int int | SetAllRGB int int int | TurnOff

record BrightnessWrapper =
  forwarded :: "bot_call list"
  debug_count :: nat

definition BrightnessWrapper_init :: BrightnessWrapper where
  "BrightnessWrapper_init = \<lparr>forwarded = [], debug_count = 0\<rparr>"

section \<open>Controller (core/lightbar_controller.py, class LightBarController)\<close>

record system_metrics =
  cpu_percent :: real
  ram_percent :: real
  temperature :: real
  load_average :: real
  system_load :: real

text \<open>\<open>available_effects\<close> is \<^verbatim>\<open>config["effects"]["available_effects"]\<close>, and
  \<open>wrapped_bot\<close> the attribute \<^verbatim>\<open>bot\<close>.\<close>

record LightBarController =
  available_effects :: "string list"
  current_effect_name :: string
  current_effect :: "effect option"
  brightness_multiplier :: real
  demo_mode_active :: bool
  demo_mode_start_time :: real
  demo_mode_previous_effect :: "string option"
  demo_mode_effects :: "string list"
  demo_mode_duration :: real
  metrics :: system_metrics
  fade_controller :: FadeController
  last_control_check :: real
  control_check_interval :: real
  wrapped_bot :: BrightnessWrapper

text \<open>The constructor, given the three configuration values it reads and the answer of
  \<^verbatim>\<open>scheduler.get_boot_behavior()\<close>.\<close>

definition LightBarController_init ::
  "string list \<Rightarrow> string \<Rightarrow> real \<Rightarrow> string \<Rightarrow> LightBarController" where
  "LightBarController_init available default_effect config_brightness boot_behavior =
     \<lparr>available_effects = available,
      current_effect_name = default_effect,
      current_effect = None,
      brightness_multiplier = (if boot_behavior = ''fade_in'' then config_brightness else 0.0),
      demo_mode_active = False,
      demo_mode_start_time = 0,
      demo_mode_previous_effect = None,
      demo_mode_effects = [''system_pulse'', ''load_rainbow'', ''random_sparkle'',
                           ''thermal_gradient'', ''load_bars''],
      demo_mode_duration = 30.0,
      metrics = \<lparr>cpu_percent = 0.0, ram_percent = 0.0, temperature = 50.0,
                 load_average = 0.0, system_load = 0.0\<rparr>,
      fade_controller = FadeController_init,
      last_control_check = 0,
      control_check_interval = 0.5,
      wrapped_bot = BrightnessWrapper_init\<rparr>"

text \<open>The wrapper holds a reference to the controller and reads its brightness at each
  call, so its methods are functions of the controller's state. The product of a channel
  and the brightness is a float product, rounded before \<^verbatim>\<open>int()\<close> cuts it.\<close>

definition set_RGB ::
  "int \<Rightarrow> real \<Rightarrow> real \<Rightarrow> real \<Rightarrow> LightBarController \<Rightarrow> LightBarController" where
  "set_RGB led_id red green blue c =
     (let brightness = brightness_multiplier c;
          r = py_int (fmul red brightness);
          g = py_int (fmul green brightness);
          b = py_int (fmul blue brightness);
          w = wrapped_bot c
      in c\<lparr>wrapped_bot := w\<lparr>forwarded := forwarded w @ [SetRGB led_id r g b]\<rparr>\<rparr>)"

definition set_all_RGB ::
  "real \<Rightarrow> real \<Rightarrow> real \<Rightarrow> LightBarController \<Rightarrow> LightBarController" where
  "set_all_RGB red green blue c =
     (let brightness = brightness_multiplier c;
          r = py_int (fmul red brightness);
          g = py_int (fmul green brightness);
          b = py_int (fmul blue brightness);
          w = wrapped_bot c
      in c\<lparr>wrapped_bot := w\<lparr>debug_count := debug_count w + 1,
                              forwarded := forwarded w @ [SetAllRGB r g b]\<rparr>\<rparr>)"

definition turn_off :: "LightBarController \<Rightarrow> LightBarController" where
  "turn_off c =
     (let w = wrapped_bot c in c\<lparr>wrapped_bot := w\<lparr>forwarded := forwarded w @ [TurnOff]\<rparr>\<rparr>)"

text \<open>A wrapped colour command, and a run of them against one controller.\<close>

datatype rgb_command = CmdSetRGB int real real real | CmdSetAllRGB real real real

fun run_command :: "rgb_command \<Rightarrow> LightBarController \<Rightarrow> LightBarController" where
  "run_command (CmdSetRGB led_id red green blue) c = set_RGB led_id red green blue c"
| "run_command (CmdSetAllRGB red green blue) c = set_all_RGB red green blue c"

fun run_commands :: "rgb_command list \<Rightarrow> LightBarController \<Rightarrow> LightBarController" where
  "run_commands [] c = c"
| "run_commands (k # ks) c = run_commands ks (run_command k c)"

fun channels :: "bot_call \<Rightarrow> int list" where
  "channels (SetRGB led_id r g b) = [r, g, b]"
| "channels (SetAllRGB r g b) = [r, g, b]"
| "channels TurnOff = []"


text \<open>The method \<^verbatim>\<open>LightBarController.calculate_randomness\<close>, which shares its name
  with the function of the randomness engine.\<close>

definition LightBarController_calculate_randomness :: "LightBarController \<Rightarrow> real" where
  "LightBarController_calculate_randomness c =
     (let cpu = cpu_percent (metrics c);
          ram = ram_percent (metrics c);
          temp = temperature (metrics c);
          base_randomness = 1.0 + ((cpu * 0.6 + ram * 0.4) / 100.0) * 3.0;
          with_bonus = (if temp > 70 then base_randomness + min 1.0 ((temp - 70) / 20.0)
                        else base_randomness)
      in min 5.0 with_bonus)"

text \<open>\<^verbatim>\<open>set_effect\<close> stores the name before it builds the instance, so a name that is
  available but not registered changes the name and keeps the old instance.\<close>

definition set_effect :: "string \<Rightarrow> LightBarController \<Rightarrow> bool \<times> LightBarController" where
  "set_effect effect_name c =
     (if effect_name \<in> set (available_effects c)
      then
        let c1 = c\<lparr>current_effect_name := effect_name\<rparr> in
        case create_effect effect_name of
          Inl e \<Rightarrow> (False, c1)
        | Inr inst \<Rightarrow> (True, c1\<lparr>current_effect := Some inst\<rparr>)
      else (False, c))"

text \<open>\<^verbatim>\<open>start_demo_mode\<close> assigns before it indexes the effect list, so its result is
  the outcome (the returned flag, or the exception) together with the state reached.\<close>

definition start_demo_mode ::
  "real \<Rightarrow> LightBarController \<Rightarrow> (py_error + bool) \<times> LightBarController" where
  "start_demo_mode now c =
     (if demo_mode_active c then (Inr False, c)
      else
        let c1 = c\<lparr>demo_mode_active := True, demo_mode_start_time := now,
                   demo_mode_previous_effect := Some (current_effect_name c)\<rparr> in
        case py_index (demo_mode_effects c1) 0 of
          Inl e \<Rightarrow> (Inl e, c1)
        | Inr first_effect \<Rightarrow> (Inr True, snd (set_effect first_effect c1)))"

text \<open>The test \<^verbatim>\<open>if self.demo_mode_previous_effect\<close> fails for \<^verbatim>\<open>None\<close> and for the
  empty string.\<close>

definition end_demo_mode :: "LightBarController \<Rightarrow> LightBarController" where
  "end_demo_mode c =
     (let c1 = c\<lparr>demo_mode_active := False\<rparr>;
          c2 = (case demo_mode_previous_effect c1 of
                  None \<Rightarrow> c1
                | Some previous \<Rightarrow> if previous = [] then c1 else snd (set_effect previous c1))
      in c2\<lparr>demo_mode_previous_effect := None\<rparr>)"

text \<open>\<^verbatim>\<open>update_demo_mode\<close>: the two divisions and the list access come before any
  assignment, so an exception leaves the controller as it was.\<close>

definition update_demo_mode :: "real \<Rightarrow> LightBarController \<Rightarrow> py_error + LightBarController" where
  "update_demo_mode now c =
     (if \<not> demo_mode_active c then Inr c
      else
        let elapsed = now - demo_mode_start_time c in
        if elapsed \<ge> demo_mode_duration c then Inr (end_demo_mode c)
        else
          case py_div (demo_mode_duration c) (real (length (demo_mode_effects c))) of
            Inl e \<Rightarrow> Inl e
          | Inr effect_duration \<Rightarrow>
              (case py_div elapsed effect_duration of
                 Inl e \<Rightarrow> Inl e
               | Inr q \<Rightarrow>
                   let effect_index = min (py_int q) (int (length (demo_mode_effects c)) - 1) in
                   case py_index (demo_mode_effects c) effect_index of
                     Inl e \<Rightarrow> Inl e
                   | Inr target_effect \<Rightarrow>
                       if target_effect = current_effect_name c then Inr c
                       else Inr (snd (set_effect target_effect c))))"

definition calculate_randomness_override ::
  "real \<Rightarrow> LightBarController \<Rightarrow> py_error + real option" where
  "calculate_randomness_override now c =
     (if \<not> demo_mode_active c then Inr None
      else
        let elapsed = now - demo_mode_start_time c in
        case py_div elapsed (demo_mode_duration c) of
          Inl e \<Rightarrow> Inl e
        | Inr progress \<Rightarrow> Inr (Some (min 5.0 (1.0 + (progress * 4.0)))))"

text \<open>\<^verbatim>\<open>update_effect\<close> as the call it makes on the current effect: the instance, the
  metric arguments and the randomness argument; \<open>None\<close> when it returns without a call.\<close>

datatype effect_update =
  EffectUpdate (update_target: effect) (update_metrics: "real list") (update_randomness: real)

definition update_effect :: "LightBarController \<Rightarrow> effect_update option" where
  "update_effect c =
     (case current_effect c of
        None \<Rightarrow> None
      | Some inst \<Rightarrow>
          if brightness_multiplier c \<le> 0 then None
          else
            let randomness = LightBarController_calculate_randomness c in
            if current_effect_name c = ''thermal_gradient''
            then Some (EffectUpdate inst
                         [system_load (metrics c), temperature (metrics c)] randomness)
            else if current_effect_name c = ''load_bars''
            then Some (EffectUpdate inst
                         [cpu_percent (metrics c), ram_percent (metrics c)] randomness)
            else Some (EffectUpdate inst [system_load (metrics c)] randomness))"

section \<open>Control channel (core/shared_state.py and check_control_commands)\<close>

text \<open>The control document returned by \<^verbatim>\<open>read_control_state()\<close>; every key may be
  missing from the file.\<close>

record control_state =
  ctl_effect :: "string option"
  ctl_brightness :: "real option"
  ctl_enabled :: "bool option"
  ctl_demo_mode :: "bool option"

definition control_defaults :: control_state where
  "control_defaults =
     \<lparr>ctl_effect = Some ''system_pulse'', ctl_brightness = Some 100,
      ctl_enabled = Some True, ctl_demo_mode = Some False\<rparr>"

text \<open>The part of \<^verbatim>\<open>check_control_commands\<close> after the enable test: a set demo flag is
  written back as false and the demo is started. The second component is the document
  written to the control file, if any. An exception of \<^verbatim>\<open>start_demo_mode\<close> is caught
  by the handler of \<^verbatim>\<open>check_control_commands\<close>, which keeps the state reached.\<close>

definition check_demo_flag ::
  "control_state \<Rightarrow> real \<Rightarrow> LightBarController \<Rightarrow> LightBarController \<times> control_state option" where
  "check_demo_flag control now c =
     (if (case ctl_demo_mode control of None \<Rightarrow> False | Some d \<Rightarrow> d)
      then (snd (start_demo_mode now c), Some (control\<lparr>ctl_demo_mode := Some False\<rparr>))
      else (c, None))"

text \<open>The branch for an enabled control document. A document without the \<^verbatim>\<open>effect\<close> key
  raises \<^verbatim>\<open>KeyError\<close> at \<^verbatim>\<open>control["effect"]\<close>; the handler catches it and the rest of
  the method is skipped. The division by 100.0 and the subtraction are float operations,
  and the literal \<^verbatim>\<open>0.01\<close> is the double nearest to it.\<close>

definition apply_enabled ::
  "control_state \<Rightarrow> real \<Rightarrow> LightBarController \<Rightarrow> LightBarController \<times> control_state option" where
  "apply_enabled control now c =
     (case ctl_effect control of
        None \<Rightarrow> (c, None)
      | Some new_effect \<Rightarrow>
          let c1 = (if new_effect = current_effect_name c then c
                    else if new_effect \<in> set (available_effects c)
                         then snd (set_effect new_effect c) else c);
              c2 = (if is_fading (fade_controller c1) then c1
                    else
                      let new_brightness =
                            fl ((case ctl_brightness control of None \<Rightarrow> 100 | Some v \<Rightarrow> v)
                                / 100.0)
                      in if \<bar>fsub new_brightness (brightness_multiplier c1)\<bar> > fl 0.01
                         then c1\<lparr>brightness_multiplier := new_brightness\<rparr> else c1)
          in check_demo_flag control now c2)"

text \<open>\<open>i2c_fails\<close> says whether the bus write behind \<^verbatim>\<open>turn_off()\<close> raises after its
  retries; the handler then skips the rest of the method.\<close>

definition check_control_commands ::
  "control_state \<Rightarrow> bool \<Rightarrow> real \<Rightarrow> LightBarController
     \<Rightarrow> LightBarController \<times> control_state option" where
  "check_control_commands control i2c_fails now c =
     (let enabled = (case ctl_enabled control of None \<Rightarrow> True | Some v \<Rightarrow> v) in
      if \<not> enabled then
        if brightness_multiplier c > 0 then
          let c1 = turn_off (c\<lparr>brightness_multiplier := 0\<rparr>) in
          if i2c_fails then (c1, None) else check_demo_flag control now c1
        else check_demo_flag control now c
      else apply_enabled control now c)"

text \<open>One iteration of the loop of \<^verbatim>\<open>run\<close>, from the scheduler action to the control
  check. \<open>action\<close> is what \<^verbatim>\<open>scheduler.update()\<close> returned; \<open>loop_start\<close>, \<open>t_start\<close>,
  \<open>t_update\<close> and \<open>t_demo\<close> are the clock readings of the loop, of \<^verbatim>\<open>start_fade\<close>, of
  the fade's \<^verbatim>\<open>update\<close> and of \<^verbatim>\<open>start_demo_mode\<close>.\<close>

definition run_iteration ::
  "string option \<Rightarrow> real \<Rightarrow> real \<Rightarrow> real \<Rightarrow> real \<Rightarrow> control_state \<Rightarrow> bool
     \<Rightarrow> LightBarController \<Rightarrow> py_error + (LightBarController \<times> control_state option)" where
  "run_iteration action loop_start t_start t_update t_demo control i2c_fails c =
     (let f0 = fade_controller c;
          f1 = (if action = Some ''fade_in'' then start_fade 0.0 1.0 3.0 t_start f0
                else if action = Some ''fade_out'' then start_fade 1.0 0.0 2.0 t_start f0
                else f0)
      in case FadeController_update_double t_update f1 of
           Inl e \<Rightarrow> Inl e
         | Inr (fade_brightness, f2) \<Rightarrow>
             let c1 = c\<lparr>fade_controller := f2\<rparr>;
                 c2 = (case fade_brightness of
                         None \<Rightarrow> c1
                       | Some v \<Rightarrow> c1\<lparr>brightness_multiplier := v\<rparr>)
             in if loop_start - last_control_check c2 > control_check_interval c2
                then
                  let r = check_control_commands control i2c_fails t_demo c2
                  in Inr ((fst r)\<lparr>last_control_check := loop_start\<rparr>, snd r)
                else Inr (c2, None))"


text \<open>What the specification expects the wrapped bot to receive for a colour command
  at brightness \<open>k\<close>: the command with each channel multiplied by \<open>k\<close>, as floats, and
  cut to an integer, as the hardware takes integers.\<close>

fun spec_scaled :: "real \<Rightarrow> rgb_command \<Rightarrow> bot_call" where
  "spec_scaled k (CmdSetRGB led_id red green blue) =
     SetRGB led_id (py_int (fmul red k)) (py_int (fmul green k)) (py_int (fmul blue k))"
| "spec_scaled k (CmdSetAllRGB red green blue) =
     SetAllRGB (py_int (fmul red k)) (py_int (fmul green k)) (py_int (fmul blue k))"

section \<open>Properties of the rounding\<close>

lemma rne_of_int: "rne (of_int m) = m"
  by (simp add: rne_def)

lemma rne_near:
  assumes "\<bar>y - of_int m\<bar> < 1 / 2"
  shows "rne y = m"
proof (cases "of_int m \<le> y")
  case True
  then have "\<lfloor>y\<rfloor> = m" using assms by (simp add: floor_eq_iff abs_less_iff)
  then show ?thesis using assms True by (simp add: rne_def Let_def abs_less_iff)
next
  case False
  then have "\<lfloor>y\<rfloor> = m - 1" using assms by (simp add: floor_eq_iff abs_less_iff)
  then show ?thesis using assms False by (simp add: rne_def Let_def abs_less_iff)
qed

lemma rne_tie:
  assumes "y = of_int m + 1 / 2"
  shows "rne y = (if even m then m else m + 1)"
proof -
  have "\<lfloor>y\<rfloor> = m" using assms by (simp add: floor_eq_iff)
  then show ?thesis using assms by (simp add: rne_def Let_def)
qed

lemma rne_mono:
  assumes "y \<le> z"
  shows "rne y \<le> rne z"
proof (cases "\<lfloor>y\<rfloor> = \<lfloor>z\<rfloor>")
  case True
  then show ?thesis using assms by (auto simp: rne_def Let_def)
next
  case False
  then have lt: "\<lfloor>y\<rfloor> < \<lfloor>z\<rfloor>" using assms floor_mono [of y z] by linarith
  have "rne y \<le> \<lfloor>y\<rfloor> + 1" by (auto simp: rne_def Let_def)
  moreover have "\<lfloor>z\<rfloor> \<le> rne z" by (auto simp: rne_def Let_def)
  ultimately show ?thesis using lt by linarith
qed

lemma rne_ge: "of_int m \<le> y \<Longrightarrow> m \<le> rne y"
  using rne_mono [of "of_int m" y] by (simp add: rne_of_int)

lemma rne_le: "y \<le> of_int m \<Longrightarrow> rne y \<le> m"
  using rne_mono [of y "of_int m"] by (simp add: rne_of_int)

lemma fl_zero: "fl 0 = 0"
  by (simp add: fl_def)

lemma binade_minus: "binade (- x) = binade x"
  by (simp add: binade_def)

lemma quantum_minus: "quantum (- x) = quantum x"
  by (simp add: quantum_def binade_minus)

lemma quantum_pos: "0 < quantum x"
  by (simp add: quantum_def)

lemma fl_minus: "fl (- x) = - fl x"
  by (simp add: fl_def quantum_minus sgn_minus)

lemma fl_pos: "0 < x \<Longrightarrow> fl x = quantum x * of_int (rne (x / quantum x))"
  by (simp add: fl_def)

lemma fl_nonneg: "0 \<le> x \<Longrightarrow> 0 \<le> fl x"
proof (cases "x = 0")
  case False
  assume "0 \<le> x"
  with False have "0 < x" by simp
  moreover have "0 \<le> rne (x / quantum x)"
    using rne_ge [of 0 "x / quantum x"] \<open>0 \<le> x\<close> quantum_pos [of x] by simp
  ultimately show ?thesis using quantum_pos [of x] by (simp add: fl_pos)
qed (simp add: fl_zero)

lemma binade_upper:
  assumes "0 < x"
  shows "x < 2 powr (of_int (binade x) + 1)"
proof -
  have "x < 2 powr (of_int \<lfloor>log 2 x\<rfloor> + 1)"
    using assms floor_log_eq_powr_iff [of x 2 "\<lfloor>log 2 x\<rfloor>"] by simp
  also have "\<dots> \<le> 2 powr (of_int (binade x) + 1)"
    using assms by (intro powr_mono) (simp_all add: binade_def)
  finally show ?thesis .
qed

lemma binade_lower:
  assumes "0 < x" and "- 1022 < binade x"
  shows "2 powr of_int (binade x) \<le> x"
proof -
  have "binade x = \<lfloor>log 2 x\<rfloor>"
    using assms by (simp add: binade_def max_def split: if_splits)
  then show ?thesis
    using assms floor_log_eq_powr_iff [of x 2 "\<lfloor>log 2 x\<rfloor>"] by simp
qed

lemma binade_mono:
  assumes "0 < x" and "x \<le> y"
  shows "binade x \<le> binade y"
proof -
  have "log 2 x \<le> log 2 y" using assms by simp
  then have "\<lfloor>log 2 x\<rfloor> \<le> \<lfloor>log 2 y\<rfloor>" by (rule floor_mono)
  then show ?thesis using assms by (simp add: binade_def)
qed

lemma binade_eqI:
  assumes "- 1022 \<le> e" and "2 powr of_int e \<le> x" and "x < 2 powr (of_int e + 1)"
  shows "binade x = e"
proof -
  have "0 < x" using assms(2) powr_gt_zero [of 2 "of_int e"] by linarith
  then have "\<lfloor>log 2 x\<rfloor> = e"
    using assms floor_log_eq_powr_iff [of x 2 e] by simp
  then show ?thesis using assms(1) \<open>0 < x\<close> by (simp add: binade_def)
qed

lemma binade_subnormal:
  assumes "0 < x" and "x < 2 powr (- 1022)"
  shows "binade x = - 1022"
proof -
  have "log 2 x < - 1022"
  proof -
    have "log 2 x < log 2 (2 powr (- 1022))"
      using assms by (subst log_less_cancel_iff) simp_all
    then show ?thesis by simp
  qed
  then have "\<lfloor>log 2 x\<rfloor> < - 1022" by (simp add: floor_less_iff)
  then show ?thesis using assms by (simp add: binade_def)
qed

lemma quantum_scale: "quantum x * 2 ^ 53 = 2 powr (of_int (binade x) + 1)"
proof -
  have p: "(2::real) powr 53 = 2 ^ 53" by (rule powr_numeral) simp
  have "quantum x * 2 ^ 53 = 2 powr (of_int (binade x) - 52) * 2 powr 53"
    by (simp only: quantum_def p)
  also have "\<dots> = 2 powr (of_int (binade x) - 52 + 53)"
    by (simp only: powr_add)
  also have "of_int (binade x) - 52 + 53 = of_int (binade x) + (1::real)"
    by simp
  finally show ?thesis .
qed

lemma quantum_scale52: "quantum x * 2 ^ 52 = 2 powr of_int (binade x)"
proof -
  have p: "(2::real) powr 52 = 2 ^ 52" by (rule powr_numeral) simp
  have "quantum x * 2 ^ 52 = 2 powr (of_int (binade x) - 52) * 2 powr 52"
    by (simp only: quantum_def p)
  also have "\<dots> = 2 powr (of_int (binade x) - 52 + 52)"
    by (simp only: powr_add)
  also have "of_int (binade x) - 52 + 52 = (of_int (binade x) :: real)"
    by simp
  finally show ?thesis .
qed

lemma fl_pos_upper:
  assumes "0 < x"
  shows "fl x \<le> 2 powr (of_int (binade x) + 1)"
proof -
  have "x < quantum x * 2 ^ 53"
    using binade_upper [OF assms] by (simp only: quantum_scale)
  then have "x / quantum x \<le> 2 ^ 53"
    using quantum_pos [of x] by (simp add: field_simps)
  then have "rne (x / quantum x) \<le> 2 ^ 53"
    using rne_le [of "x / quantum x" "2 ^ 53"] by simp
  then have "(of_int (rne (x / quantum x)) :: real) \<le> 2 ^ 53"
    using of_int_le_iff [of "rne (x / quantum x)" "2 ^ 53", where ?'a = real] by simp
  then have "quantum x * of_int (rne (x / quantum x)) \<le> quantum x * 2 ^ 53"
    using quantum_pos [of x] by (simp only: mult_le_cancel_left_pos)
  then show ?thesis using assms by (simp only: fl_pos quantum_scale)
qed

lemma fl_pos_lower:
  assumes "0 < x" and "- 1022 < binade x"
  shows "2 powr of_int (binade x) \<le> fl x"
proof -
  have "quantum x * 2 ^ 52 \<le> x"
    using binade_lower [OF assms] by (simp only: quantum_scale52)
  then have "2 ^ 52 \<le> x / quantum x"
    using quantum_pos [of x] by (simp add: field_simps)
  then have "2 ^ 52 \<le> rne (x / quantum x)"
    using rne_ge [of "2 ^ 52" "x / quantum x"] by simp
  then have "(2 ^ 52 :: real) \<le> of_int (rne (x / quantum x))"
    using of_int_le_iff [of "2 ^ 52" "rne (x / quantum x)", where ?'a = real] by simp
  then have "quantum x * 2 ^ 52 \<le> quantum x * of_int (rne (x / quantum x))"
    using quantum_pos [of x] by (simp only: mult_le_cancel_left_pos)
  then show ?thesis using assms by (simp only: fl_pos quantum_scale52)
qed

lemma fl_mono_pos:
  assumes "0 < x" and "x \<le> y"
  shows "fl x \<le> fl y"
proof (cases "binade x = binade y")
  case True
  then have q: "quantum x = quantum y" by (simp add: quantum_def)
  have "x / quantum y \<le> y / quantum y"
    using assms quantum_pos [of y] by (simp add: divide_right_mono)
  then have "rne (x / quantum y) \<le> rne (y / quantum y)" by (rule rne_mono)
  then have "quantum y * of_int (rne (x / quantum y)) \<le> quantum y * of_int (rne (y / quantum y))"
    using quantum_pos [of y] by simp
  then show ?thesis using assms by (simp add: fl_pos q)
next
  case False
  then have lt: "binade x < binade y" using binade_mono [OF assms] by simp
  have "- 1022 \<le> binade x" by (simp add: binade_def)
  with lt have normal: "- 1022 < binade y" by simp
  have "0 < y" using assms by simp
  have "fl x \<le> 2 powr (of_int (binade x) + 1)" by (rule fl_pos_upper [OF assms(1)])
  also have "\<dots> \<le> 2 powr of_int (binade y)"
    using lt by (intro powr_mono) simp_all
  also have "\<dots> \<le> fl y" by (rule fl_pos_lower [OF \<open>0 < y\<close> normal])
  finally show ?thesis .
qed

lemma fl_mono:
  assumes "x \<le> y"
  shows "fl x \<le> fl y"
proof -
  consider "0 < x" | "x \<le> 0" "0 \<le> y" | "y < 0" by linarith
  then show ?thesis
  proof cases
    case 1
    then show ?thesis using assms by (rule fl_mono_pos)
  next
    case 2
    then have "fl x \<le> 0" using fl_nonneg [of "- x"] by (simp add: fl_minus)
    moreover have "0 \<le> fl y" using 2 by (simp add: fl_nonneg)
    ultimately show ?thesis by simp
  next
    case 3
    then have "0 < - y" and "- y \<le> - x" using assms by simp_all
    then have "fl (- y) \<le> fl (- x)" by (rule fl_mono_pos)
    then show ?thesis by (simp add: fl_minus)
  qed
qed

lemma grid_quantum:
  assumes "- 1022 \<le> b"
  shows "(2::real) powr (of_int b - 52) * 2 ^ 52 = 2 powr of_int b"
    and "(2::real) powr (of_int b - 52) * 2 ^ 53 = 2 powr (of_int b + 1)"
proof -
  have p: "(2::real) powr 52 = 2 ^ 52" "(2::real) powr 53 = 2 ^ 53"
    by (rule powr_numeral, simp)+
  have "(2::real) powr (of_int b - 52) * 2 powr 52 = 2 powr (of_int b - 52 + 52)"
    by (simp only: powr_add)
  moreover have "of_int b - 52 + 52 = (of_int b :: real)" by simp
  ultimately show "(2::real) powr (of_int b - 52) * 2 ^ 52 = 2 powr of_int b"
    by (simp only: p)
  have "(2::real) powr (of_int b - 52) * 2 powr 53 = 2 powr (of_int b - 52 + 53)"
    by (simp only: powr_add)
  moreover have "of_int b - 52 + 53 = of_int b + (1::real)" by simp
  ultimately show "(2::real) powr (of_int b - 52) * 2 ^ 53 = 2 powr (of_int b + 1)"
    by (simp only: p)
qed

text \<open>A positive multiple of a quantum with at most 53 bits is kept by the rounding.\<close>

lemma fl_grid:
  fixes m :: int and b :: int
  defines "q \<equiv> 2 powr (of_int b - 52)"
  assumes b: "- 1022 \<le> b" and m: "0 < m" "m \<le> 2 ^ 53"
    and small: "m < 2 ^ 52 \<Longrightarrow> b = - 1022"
  shows "fl (q * of_int m) = q * of_int m"
proof -
  have qpos: "0 < q" by (simp add: q_def)
  let ?v = "q * of_int m"
  have vpos: "0 < ?v" using qpos m(1) by simp
  have mr: "(0::real) < of_int m" "(of_int m :: real) \<le> 2 ^ 53" using m by simp_all
  consider (top) "m = 2 ^ 53" | (normal) "2 ^ 52 \<le> m" "m < 2 ^ 53" | (sub) "m < 2 ^ 52"
    using m(2) by linarith
  then show ?thesis
  proof cases
    case top
    then have v: "?v = 2 powr (of_int b + 1)"
      using grid_quantum(2) [OF b] by (simp add: q_def)
    have "binade ?v = b + 1"
      unfolding v by (rule binade_eqI) (use b in \<open>simp_all add: powr_less_cancel_iff\<close>)
    then have qv: "quantum ?v = 2 powr (of_int (b + 1) - 52)" by (simp add: quantum_def)
    have g: "2 powr (of_int (b + 1) - 52) * 2 ^ 52 = (2::real) powr of_int (b + 1)"
      by (rule grid_quantum(1)) (use b in simp)
    have "quantum ?v * 2 ^ 52 = 2 powr of_int (b + 1)"
      unfolding qv by (rule g)
    also have "\<dots> = ?v" by (simp add: v)
    finally have "quantum ?v * 2 ^ 52 = ?v" .
    then have "?v / quantum ?v = of_int (2 ^ 52)"
      using quantum_pos [of ?v] by (simp add: field_simps)
    then have "rne (?v / quantum ?v) = 2 ^ 52" by (simp only: rne_of_int)
    then have "fl ?v = quantum ?v * 2 ^ 52" using vpos by (simp add: fl_pos)
    then show ?thesis using \<open>quantum ?v * 2 ^ 52 = ?v\<close> by simp
  next
    case normal
    then have "(2::real) ^ 52 \<le> of_int m" "(of_int m :: real) < 2 ^ 53"
      using of_int_le_iff [of "2 ^ 52" m, where ?'a = real]
        of_int_less_iff [of m "2 ^ 53", where ?'a = real] by simp_all
    then have "q * 2 ^ 52 \<le> ?v" "?v < q * 2 ^ 53" using qpos by simp_all
    then have "2 powr of_int b \<le> ?v" "?v < 2 powr (of_int b + 1)"
      by (simp_all only: q_def grid_quantum [OF b])
    then have "binade ?v = b" using b by (intro binade_eqI)
    then have "quantum ?v = q" by (simp add: quantum_def q_def)
    then show ?thesis using vpos qpos by (simp add: fl_pos rne_of_int)
  next
    case sub
    then have b': "b = - 1022" by (rule small)
    from sub have "(of_int m :: real) < 2 ^ 52"
      using of_int_less_iff [of m "2 ^ 52", where ?'a = real] by simp
    then have "?v < q * 2 ^ 52" using qpos by simp
    then have "?v < 2 powr of_int b"
      by (simp only: q_def grid_quantum [OF b])
    then have "?v < 2 powr (- 1022)"
      by (simp add: b')
    then have "binade ?v = - 1022" using vpos by (intro binade_subnormal)
    then have "quantum ?v = q" by (simp add: quantum_def q_def b')
    then show ?thesis using vpos qpos by (simp add: fl_pos rne_of_int)
  qed
qed

lemma fl_idem_pos:
  assumes "0 < x"
  shows "fl (fl x) = fl x"
proof -
  let ?m = "rne (x / quantum x)"
  have v: "fl x = 2 powr (of_int (binade x) - 52) * of_int ?m"
    using assms by (simp add: fl_pos quantum_def)
  have b: "- 1022 \<le> binade x" by (simp add: binade_def)
  have nonneg: "0 \<le> ?m"
    using rne_ge [of 0 "x / quantum x"] assms quantum_pos [of x] by simp
  show ?thesis
  proof (cases "?m = 0")
    case True
    then show ?thesis by (simp add: v fl_zero)
  next
    case False
    with nonneg have pos: "0 < ?m" by simp
    have "x < quantum x * 2 ^ 53"
      using binade_upper [OF assms] by (simp only: quantum_scale)
    then have "x / quantum x \<le> of_int (2 ^ 53)"
      using quantum_pos [of x] by (simp add: field_simps)
    then have upper: "?m \<le> 2 ^ 53" by (rule rne_le)
    have small: "binade x = - 1022" if "?m < 2 ^ 52"
    proof (rule ccontr)
      assume "binade x \<noteq> - 1022"
      with b have n: "- 1022 < binade x" by simp
      have "quantum x * 2 ^ 52 \<le> x"
        using binade_lower [OF assms n] by (simp only: quantum_scale52)
      then have "of_int (2 ^ 52) \<le> x / quantum x"
        using quantum_pos [of x] by (simp add: field_simps)
      then have "2 ^ 52 \<le> ?m" by (rule rne_ge)
      with that show False by simp
    qed
    show ?thesis
      unfolding v by (rule fl_grid [OF b pos upper small])
  qed
qed

lemma fl_idem: "fl (fl x) = fl x"
proof -
  consider "0 < x" | "x = 0" | "0 < - x" by linarith
  then show ?thesis
  proof cases
    case 1
    then show ?thesis by (rule fl_idem_pos)
  next
    case 2
    then show ?thesis by (simp add: fl_zero)
  next
    case 3
    then have "fl (fl (- x)) = fl (- x)" by (rule fl_idem_pos)
    then show ?thesis by (simp add: fl_minus)
  qed
qed

text \<open>Evaluation at a concrete positive value below \<open>2 ^ 53\<close>: scale it by \<open>2 ^ k\<close> into
  the range of 53-bit integers and round there.\<close>

lemma fl_eval:
  fixes x :: real and k :: nat
  assumes "k \<le> 1074" and "2 ^ 52 \<le> x * 2 ^ k" and "x * 2 ^ k < 2 ^ 53"
  shows "fl x = of_int (rne (x * 2 ^ k)) / 2 ^ k"
proof -
  let ?e = "52 - int k"
  have xpos: "0 < x"
  proof (rule ccontr)
    assume "\<not> 0 < x"
    then have "x * 2 ^ k \<le> 0" by (simp add: mult_nonpos_nonneg)
    moreover have "(0::real) < 2 ^ 52" by simp
    ultimately show False using assms(2) by linarith
  qed
  have pk: "2 powr (of_int ?e - 52) = 1 / (2::real) ^ k"
    by (simp add: powr_minus powr_realpow field_simps)
  have e: "- 1022 \<le> ?e" using assms(1) by simp
  have lo: "2 powr of_int ?e = 2 ^ 52 / (2::real) ^ k"
    using grid_quantum(1) [OF e] unfolding pk by simp
  have hi: "2 powr (of_int ?e + 1) = 2 ^ 53 / (2::real) ^ k"
    using grid_quantum(2) [OF e] unfolding pk by simp
  have "2 powr of_int ?e \<le> x" "x < 2 powr (of_int ?e + 1)"
    using assms(2,3) by (simp_all only: lo hi) (simp_all add: field_simps)
  then have "binade x = ?e" using e by (intro binade_eqI)
  then have "quantum x = 1 / 2 ^ k" by (simp only: quantum_def pk)
  then show ?thesis using xpos by (simp add: fl_pos)
qed

lemma fl_exact:
  fixes x :: real and k :: nat and m :: int
  assumes "k \<le> 1074" and "x * 2 ^ k = of_int m" and "2 ^ 52 \<le> m" and "m < 2 ^ 53"
  shows "fl x = x"
proof -
  have "(2::real) ^ 52 \<le> of_int m" "(of_int m :: real) < 2 ^ 53"
    using assms(3,4) of_int_le_iff [of "2 ^ 52" m, where ?'a = real]
      of_int_less_iff [of m "2 ^ 53", where ?'a = real] by simp_all
  then have "fl x = of_int (rne (x * 2 ^ k)) / 2 ^ k"
    using assms(1,2) by (intro fl_eval) simp_all
  also have "rne (x * 2 ^ k) = m" by (simp only: assms(2) rne_of_int)
  also have "of_int m / 2 ^ k = x" by (simp flip: assms(2))
  finally show ?thesis .
qed

lemma fl_one: "fl 1 = 1"
  by (rule fl_exact [where k = 52 and m = "2 ^ 52"]) simp_all

lemma fl_two: "fl 2 = 2"
  by (rule fl_exact [where k = 51 and m = "2 ^ 52"]) simp_all

text \<open>The cosine near its first zero, by its Taylor polynomial of degree 14.\<close>

lemma cos_poly16:
  fixes x :: real
  shows "(\<Sum>m<16. cos_coeff m * x ^ m) =
     1 - x * x / 2 * (1 - x * x / 12 * (1 - x * x / 30 * (1 - x * x / 56 *
       (1 - x * x / 90 * (1 - x * x / 132 * (1 - x * x / 182))))))"
proof -
  have "(\<Sum>m<16. cos_coeff m * x ^ m) = (\<Sum>m \<in> {0..<16}. cos_coeff m * x ^ m)"
    by (simp add: atLeast0LessThan)
  also have "\<dots> = 1 - x * x / 2 * (1 - x * x / 12 * (1 - x * x / 30 * (1 - x * x / 56 *
       (1 - x * x / 90 * (1 - x * x / 132 * (1 - x * x / 182))))))"
    by (simp add: sum.atLeast_Suc_lessThan cos_coeff_def fact_numeral algebra_simps)
  finally show ?thesis .
qed

lemma cos_remainder16:
  fixes x :: real
  shows "\<bar>cos x - (\<Sum>m<16. cos_coeff m * x ^ m)\<bar> \<le> \<bar>x\<bar> ^ 16 / fact 16"
proof -
  obtain t where
    "cos x = (\<Sum>m<16. cos_coeff m * x ^ m) + (cos (t + 1 / 2 * real 16 * pi) / fact 16) * x ^ 16"
    using Maclaurin_cos_expansion [of x 16] by blast
  then have "\<bar>cos x - (\<Sum>m<16. cos_coeff m * x ^ m)\<bar> =
      \<bar>cos (t + 1 / 2 * real 16 * pi)\<bar> * (\<bar>x\<bar> ^ 16 / fact 16)"
    by (simp add: abs_mult abs_divide power_abs)
  also have "\<dots> \<le> 1 * (\<bar>x\<bar> ^ 16 / fact 16)"
    by (intro mult_right_mono) simp_all
  finally show ?thesis by simp
qed

section \<open>Properties of the randomness engine\<close>

lemma calculate_randomness_bounds:
  "1 \<le> calculate_randomness cpu ram temp \<and> calculate_randomness cpu ram temp \<le> 5"
  by (simp add: calculate_randomness_def Let_def)

lemma calculate_randomness_mono_cpu:
  assumes "cpu \<le> cpu'"
  shows "calculate_randomness cpu ram temp \<le> calculate_randomness cpu' ram temp"
  unfolding calculate_randomness_def Let_def
  using assms by (intro max.mono min.mono add_mono mult_right_mono order_refl) auto

lemma calculate_randomness_mono_ram:
  assumes "ram \<le> ram'"
  shows "calculate_randomness cpu ram temp \<le> calculate_randomness cpu ram' temp"
  unfolding calculate_randomness_def Let_def
  using assms by (intro max.mono min.mono add_mono mult_right_mono order_refl) auto

text \<open>
  Claim C1. For cpu and ram in [0,100] and temp in [-40,150] the randomness lies in
  [1,5]; raising cpu (to \<open>cpu'\<close>, still within [0,100]) with ram and temp fixed does not
  lower it, and neither does raising ram (to \<open>ram'\<close>) with cpu and temp fixed.
\<close>

theorem randomness_range_and_monotone:
  assumes "0 \<le> cpu" and "cpu \<le> cpu'" and "cpu' \<le> 100"
    and "0 \<le> ram" and "ram \<le> ram'" and "ram' \<le> 100"
    and "- 40 \<le> temp" and "temp \<le> 150"
  shows "1 \<le> calculate_randomness cpu ram temp
       \<and> calculate_randomness cpu ram temp \<le> 5
       \<and> calculate_randomness cpu ram temp \<le> calculate_randomness cpu' ram temp
       \<and> calculate_randomness cpu ram temp \<le> calculate_randomness cpu ram' temp"
  using calculate_randomness_bounds [of cpu ram temp]
    calculate_randomness_mono_cpu [OF assms(2), of ram temp]
    calculate_randomness_mono_ram [OF assms(5), of cpu temp]
  by simp

theorem randomness_range_and_monotone_witness:
  "1 \<le> calculate_randomness 20 30 45
   \<and> calculate_randomness 20 30 45 \<le> 5
   \<and> calculate_randomness 20 30 45 \<le> calculate_randomness 80 30 45
   \<and> calculate_randomness 20 30 45 \<le> calculate_randomness 20 60 45"
  using randomness_range_and_monotone [of 20 80 30 60 45] by simp

text \<open>
  Claim C4 says that cpu=95, ram=90, temp=90 clamps to exactly 5.0. It does not: the
  weighted load is 0.93, the base 1 + 0.93 * 3 = 3.79, the temperature bonus is the full
  1.0, and the sum 4.79 is below the upper bound.
\<close>

theorem randomness_95_90_90_not_clamped:
  "calculate_randomness 95 90 90 \<noteq> 5"
  by (simp add: calculate_randomness_def Let_def)

text \<open>
  Claim C4, amended. For cpu=95, ram=90, temp=90 the randomness engine returns 4.79, and
  so does the controller's own method on metrics holding these three values; the clamp
  leaves the value as it is.
\<close>

theorem randomness_95_90_90_value:
  "calculate_randomness 95 90 90 = 479 / 100
   \<and> LightBarController_calculate_randomness
        (c\<lparr>metrics := \<lparr>cpu_percent = 95, ram_percent = 90, temperature = 90,
                       load_average = la, system_load = sl\<rparr>\<rparr>) = 479 / 100"
  by (simp add: calculate_randomness_def LightBarController_calculate_randomness_def Let_def)


section \<open>Properties of the fade controller\<close>

lemma update_idle:
  "\<not> fading s \<Longrightarrow> FadeController_update now s = Inr (None, s)"
  by (simp add: FadeController_update_def)

lemma update_in_flight:
  assumes "fading s" and "fade_duration s \<noteq> 0"
    and "(now - fade_start s) / fade_duration s < 1"
  shows "FadeController_update now s =
           Inr (Some (fade_from s + (fade_to s - fade_from s) *
                  ((sin (((now - fade_start s) / fade_duration s - 0.5) * pi) + 1) / 2)), s)"
  using assms by (simp add: FadeController_update_def py_div_def Let_def min_def)

lemma update_completing:
  assumes "fading s" and "fade_duration s \<noteq> 0"
    and "1 \<le> (now - fade_start s) / fade_duration s"
  shows "FadeController_update now s = Inr (Some (fade_to s), s\<lparr>fading := False\<rparr>)"
  using assms by (simp add: FadeController_update_def py_div_def Let_def min_def)

lemma update_calls_idle:
  "\<not> fading s \<Longrightarrow> update_calls ts s = Inr (replicate (length ts) None, s)"
  by (induction ts) (simp_all add: update_idle)

lemma update_calls_in_flight:
  assumes "fading s" and "fade_duration s \<noteq> 0"
    and "\<forall>t \<in> set ts. (t - fade_start s) / fade_duration s < 1"
  shows "\<exists>bs. length bs = length ts \<and>
           update_calls (ts @ rest) s =
             (case update_calls rest s of
                Inl e \<Rightarrow> Inl e
              | Inr (rs, s') \<Rightarrow> Inr (map Some bs @ rs, s'))"
  using assms(3)
proof (induction ts)
  case Nil
  show ?case by (auto split: sum.splits)
next
  case (Cons t ts)
  then obtain bs where bs: "length bs = length ts"
    "update_calls (ts @ rest) s =
       (case update_calls rest s of Inl e \<Rightarrow> Inl e | Inr (rs, s') \<Rightarrow> Inr (map Some bs @ rs, s'))"
    by auto
  from Cons.prems have "(t - fade_start s) / fade_duration s < 1" by simp
  from update_in_flight [OF assms(1,2) this]
  obtain b where b: "FadeController_update t s = Inr (Some b, s)" by blast
  have "length (b # bs) = length (t # ts)" using bs(1) by simp
  moreover have "update_calls ((t # ts) @ rest) s =
       (case update_calls rest s of Inl e \<Rightarrow> Inl e
        | Inr (rs, s') \<Rightarrow> Inr (map Some (b # bs) @ rs, s'))"
    using b bs(2) by (auto split: sum.splits)
  ultimately show ?case by blast
qed

text \<open>
  Claim C7. In a fade session with duration > 0, the calls of \<^verbatim>\<open>update()\<close> made while
  elapsed/duration is below 1 each return a brightness, the first call at which
  elapsed/duration reaches 1 returns exactly the target \<^verbatim>\<open>fade_to\<close> and ends the session,
  \<^verbatim>\<open>is_fading()\<close> is false from then on, and every later call returns \<^verbatim>\<open>None\<close>.
\<close>

theorem fade_ends_at_target:
  assumes "fading s" and "0 < fade_duration s"
    and "\<forall>t \<in> set before. (t - fade_start s) / fade_duration s < 1"
    and "1 \<le> (now - fade_start s) / fade_duration s"
  shows "FadeController_update now s = Inr (Some (fade_to s), s\<lparr>fading := False\<rparr>)
       \<and> \<not> is_fading (s\<lparr>fading := False\<rparr>)
       \<and> (\<exists>bs. length bs = length before \<and>
             update_calls (before @ now # later) s =
               Inr (map Some bs @ Some (fade_to s) # replicate (length later) None,
                    s\<lparr>fading := False\<rparr>))"
proof -
  have nz: "fade_duration s \<noteq> 0" using assms(2) by simp
  have fin: "FadeController_update now s = Inr (Some (fade_to s), s\<lparr>fading := False\<rparr>)"
    by (rule update_completing [OF assms(1) nz assms(4)])
  have tail: "update_calls (now # later) s =
      Inr (Some (fade_to s) # replicate (length later) None, s\<lparr>fading := False\<rparr>)"
    by (simp add: fin update_calls_idle)
  from update_calls_in_flight [OF assms(1) nz assms(3), of "now # later"]
  obtain bs where "length bs = length before"
    "update_calls (before @ now # later) s =
       (case update_calls (now # later) s of Inl e \<Rightarrow> Inl e
        | Inr (rs, s') \<Rightarrow> Inr (map Some bs @ rs, s'))"
    by blast
  then have "length bs = length before \<and> update_calls (before @ now # later) s =
      Inr (map Some bs @ Some (fade_to s) # replicate (length later) None,
           s\<lparr>fading := False\<rparr>)"
    unfolding tail by simp
  then show ?thesis using fin by (auto simp: is_fading_def)
qed

theorem fade_ends_at_target_witness:
  "FadeController_update 3 (start_fade 0 1 3 0 FadeController_init) =
     Inr (Some 1, (start_fade 0 1 3 0 FadeController_init)\<lparr>fading := False\<rparr>)
   \<and> \<not> is_fading ((start_fade 0 1 3 0 FadeController_init)\<lparr>fading := False\<rparr>)
   \<and> (\<exists>bs. length bs = length [1::real, 2] \<and>
         update_calls ([1, 2] @ 3 # [4, 5]) (start_fade 0 1 3 0 FadeController_init) =
           Inr (map Some bs @ Some 1 # replicate (length [4::real, 5]) None,
                (start_fade 0 1 3 0 FadeController_init)\<lparr>fading := False\<rparr>))"
proof -
  let ?s = "start_fade 0 1 3 0 FadeController_init"
  have h1: "fading ?s" and h2: "0 < fade_duration ?s"
    and h3: "\<forall>t \<in> set [1, 2]. (t - fade_start ?s) / fade_duration ?s < 1"
    and h4: "1 \<le> (3 - fade_start ?s) / fade_duration ?s"
    and target: "fade_to ?s = 1"
    by (simp_all add: start_fade_def)
  from fade_ends_at_target [OF h1 h2 h3 h4, of "[4, 5]"] show ?thesis
    unfolding target .
qed

subsection \<open>The fade in doubles\<close>

lemma fl_minus_one: "fl (- 1) = - 1"
  by (simp only: fl_minus fl_one)

lemma math_sin_range: "- 1 \<le> math_sin x \<and> math_sin x \<le> 1"
proof -
  have "fl (- 1) \<le> fl (sin x)" "fl (sin x) \<le> fl 1"
    by (rule fl_mono, simp)+
  then show ?thesis by (simp add: math_sin_def fl_minus_one fl_one)
qed

lemma smooth_progress_unit:
  "0 \<le> fl (fadd (math_sin y) 1 / 2) \<and> fl (fadd (math_sin y) 1 / 2) \<le> 1"
proof -
  have "fl 0 \<le> fl (math_sin y + 1)" "fl (math_sin y + 1) \<le> fl 2"
    using math_sin_range [of y] by (intro fl_mono, simp)+
  then have "0 \<le> fadd (math_sin y) 1 / 2" "fadd (math_sin y) 1 / 2 \<le> 1"
    by (simp_all add: fadd_def fl_zero fl_two)
  then have "fl 0 \<le> fl (fadd (math_sin y) 1 / 2)" "fl (fadd (math_sin y) 1 / 2) \<le> fl 1"
    by (auto intro: fl_mono)
  then show ?thesis by (simp add: fl_zero fl_one)
qed

lemma fsub_idem: "fl (fsub a b) = fsub a b"
  by (simp add: fsub_def fl_idem)

text \<open>The interpolation in doubles stays between the start and the rounded sum
  \<open>a + (b - a)\<close>, which need not be \<open>b\<close>.\<close>

lemma interpolation_double:
  assumes "0 \<le> k" and "k \<le> 1"
  shows "min (fl a) (fadd a (fsub b a)) \<le> fadd a (fmul (fsub b a) k)
       \<and> fadd a (fmul (fsub b a) k) \<le> max (fl a) (fadd a (fsub b a))"
proof (cases "0 \<le> fsub b a")
  case True
  then have "0 \<le> fsub b a * k" "fsub b a * k \<le> fsub b a"
    using assms mult_left_mono [of k 1 "fsub b a"] by simp_all
  then have "fl 0 \<le> fmul (fsub b a) k" "fmul (fsub b a) k \<le> fl (fsub b a)"
    unfolding fmul_def by (auto intro: fl_mono)
  then have "a + 0 \<le> a + fmul (fsub b a) k" "a + fmul (fsub b a) k \<le> a + fsub b a"
    by (simp_all add: fl_zero fsub_idem)
  then have "fl (a + 0) \<le> fadd a (fmul (fsub b a) k)"
    "fadd a (fmul (fsub b a) k) \<le> fadd a (fsub b a)"
    unfolding fadd_def by (auto intro: fl_mono)
  then show ?thesis by simp
next
  case False
  then have "fsub b a \<le> fsub b a * k" "fsub b a * k \<le> 0"
    using assms mult_left_mono_neg [of k 1 "fsub b a"] by (simp_all add: mult_nonpos_nonneg)
  then have "fl (fsub b a) \<le> fmul (fsub b a) k" "fmul (fsub b a) k \<le> fl 0"
    unfolding fmul_def by (auto intro: fl_mono)
  then have "a + fsub b a \<le> a + fmul (fsub b a) k" "a + fmul (fsub b a) k \<le> a + 0"
    by (simp_all add: fl_zero fsub_idem)
  then have "fadd a (fsub b a) \<le> fadd a (fmul (fsub b a) k)"
    "fadd a (fmul (fsub b a) k) \<le> fl (a + 0)"
    unfolding fadd_def by (auto intro: fl_mono)
  then show ?thesis by simp
qed

lemma update_double_idle:
  "\<not> fading s \<Longrightarrow> FadeController_update_double now s = Inr (None, s)"
  by (simp add: FadeController_update_double_def)

lemma update_double_zero_duration:
  assumes "fading s" and "fade_duration s = 0"
  shows "FadeController_update_double now s = Inl ZeroDivisionError"
  using assms by (simp add: FadeController_update_double_def fdiv_def Let_def)

text \<open>In doubles, too, the call at which the computed progress reaches 1 returns the
  target itself and ends the session.\<close>

lemma update_double_completing:
  assumes "fading s" and "fdiv (fsub now (fade_start s)) (fade_duration s) = Inr q"
    and "1 \<le> q"
  shows "FadeController_update_double now s = Inr (Some (fade_to s), s\<lparr>fading := False\<rparr>)"
  using assms by (simp add: FadeController_update_double_def Let_def min_def)

lemma update_double_active:
  assumes "fading s" and "fade_duration s \<noteq> 0"
  shows "FadeController_update_double now s = Inr (Some (fade_to s), s\<lparr>fading := False\<rparr>)
       \<or> (\<exists>y. FadeController_update_double now s =
              Inr (Some (fadd (fade_from s)
                     (fmul (fsub (fade_to s) (fade_from s)) (fl (fadd (math_sin y) 1 / 2)))), s))"
  using assms
  by (auto simp: FadeController_update_double_def fdiv_def Let_def)

text \<open>
  Claim C9, amended. \<^verbatim>\<open>start_fade\<close> accepts the duration 0, and the next \<^verbatim>\<open>update()\<close>
  then raises \<^verbatim>\<open>ZeroDivisionError\<close>. With a positive duration \<^verbatim>\<open>update()\<close> raises
  nothing, and a brightness it returns is the target \<^verbatim>\<open>fade_to\<close> itself or lies between
  \<^verbatim>\<open>fade_from\<close> and the float sum \<^verbatim>\<open>fade_from + (fade_to - fade_from)\<close>, which can miss
  \<^verbatim>\<open>fade_to\<close> by a rounding error.
\<close>

theorem fade_double_total_and_near_interval:
  "(0 < fade_duration s \<longrightarrow>
      (\<exists>r s'. FadeController_update_double now s = Inr (r, s') \<and>
         (r = None \<or> r = Some (fade_to s) \<or>
          (\<exists>b. r = Some b \<and>
             min (fl (fade_from s)) (fadd (fade_from s) (fsub (fade_to s) (fade_from s))) \<le> b \<and>
             b \<le> max (fl (fade_from s)) (fadd (fade_from s) (fsub (fade_to s) (fade_from s)))))))
   \<and> FadeController_update_double now (start_fade from_brightness to_brightness 0 t0 s) =
       Inl ZeroDivisionError"
proof (intro conjI impI)
  assume pos: "0 < fade_duration s"
  let ?lo = "min (fl (fade_from s)) (fadd (fade_from s) (fsub (fade_to s) (fade_from s)))"
  let ?hi = "max (fl (fade_from s)) (fadd (fade_from s) (fsub (fade_to s) (fade_from s)))"
  show "\<exists>r s'. FadeController_update_double now s = Inr (r, s') \<and>
         (r = None \<or> r = Some (fade_to s) \<or> (\<exists>b. r = Some b \<and> ?lo \<le> b \<and> b \<le> ?hi))"
  proof (cases "fading s")
    case False
    then show ?thesis by (simp add: update_double_idle)
  next
    case True
    have nz: "fade_duration s \<noteq> 0" using pos by simp
    from update_double_active [OF True nz, of now]
    consider "FadeController_update_double now s = Inr (Some (fade_to s), s\<lparr>fading := False\<rparr>)"
      | y where "FadeController_update_double now s =
              Inr (Some (fadd (fade_from s)
                     (fmul (fsub (fade_to s) (fade_from s)) (fl (fadd (math_sin y) 1 / 2)))), s)"
      by blast
    then show ?thesis
    proof cases
      case 1
      then show ?thesis by simp
    next
      case 2
      have "?lo \<le> fadd (fade_from s)
                     (fmul (fsub (fade_to s) (fade_from s)) (fl (fadd (math_sin y) 1 / 2)))
        \<and> fadd (fade_from s)
                     (fmul (fsub (fade_to s) (fade_from s)) (fl (fadd (math_sin y) 1 / 2))) \<le> ?hi"
        by (rule interpolation_double)
           (simp_all only: smooth_progress_unit [THEN conjunct1] smooth_progress_unit [THEN conjunct2])
      with 2 show ?thesis by simp
    qed
  qed
next
  show "FadeController_update_double now (start_fade from_brightness to_brightness 0 t0 s) =
       Inl ZeroDivisionError"
    by (rule update_double_zero_duration) (simp_all add: start_fade_def)
qed

theorem fade_double_total_and_near_interval_witness:
  "(\<exists>r s'. FadeController_update_double (1 - 1 / 2 ^ 30)
              (start_fade (fl 0.03) (fl 0.29) 1 0 FadeController_init) = Inr (r, s') \<and>
         (r = None \<or> r = Some (fade_to (start_fade (fl 0.03) (fl 0.29) 1 0 FadeController_init)) \<or>
          (\<exists>b. r = Some b \<and>
             min (fl (fade_from (start_fade (fl 0.03) (fl 0.29) 1 0 FadeController_init)))
               (fadd (fade_from (start_fade (fl 0.03) (fl 0.29) 1 0 FadeController_init))
                  (fsub (fade_to (start_fade (fl 0.03) (fl 0.29) 1 0 FadeController_init))
                     (fade_from (start_fade (fl 0.03) (fl 0.29) 1 0 FadeController_init)))) \<le> b \<and>
             b \<le> max (fl (fade_from (start_fade (fl 0.03) (fl 0.29) 1 0 FadeController_init)))
               (fadd (fade_from (start_fade (fl 0.03) (fl 0.29) 1 0 FadeController_init))
                  (fsub (fade_to (start_fade (fl 0.03) (fl 0.29) 1 0 FadeController_init))
                     (fade_from (start_fade (fl 0.03) (fl 0.29) 1 0 FadeController_init)))))))
   \<and> FadeController_update_double (1 - 1 / 2 ^ 30)
       (start_fade 0 1 0 0 (start_fade (fl 0.03) (fl 0.29) 1 0 FadeController_init)) =
       Inl ZeroDivisionError"
proof -
  let ?s = "start_fade (fl 0.03) (fl 0.29) 1 0 FadeController_init"
  have positive: "0 < fade_duration ?s" by (simp add: start_fade_def)
  from fade_double_total_and_near_interval [of ?s "1 - 1 / 2 ^ 30" 0 1 0] positive
  show ?thesis by blast
qed

lemma fl_0_03: "fl 0.03 = 1080863910568919 / 2 ^ 55"
proof -
  have "fl 0.03 = of_int (rne (0.03 * 2 ^ 58)) / 2 ^ 58"
    by (rule fl_eval) simp_all
  also have "rne (0.03 * 2 ^ 58) = 8646911284551352"
    by (rule rne_near) simp
  finally show ?thesis by simp
qed

lemma fl_0_29: "fl 0.29 = 5224175567749775 / 2 ^ 54"
proof -
  have "fl 0.29 = of_int (rne (0.29 * 2 ^ 54)) / 2 ^ 54"
    by (rule fl_eval) simp_all
  also have "rne (0.29 * 2 ^ 54) = 5224175567749775"
    by (rule rne_near) simp
  finally show ?thesis by simp
qed

text \<open>The steps of one \<^verbatim>\<open>update()\<close>, for a fade from 0.03 to 0.29 over one second that
  started at clock 0, called at clock \<open>1 - 2 ^ -30\<close>.\<close>

lemma step_elapsed: "fsub (1 - 1 / 2 ^ 30) 0 = 1 - 1 / 2 ^ 30"
proof -
  have "fl (1 - 1 / 2 ^ 30) = 1 - 1 / 2 ^ 30"
    by (rule fl_exact [where k = 53 and m = 9007199246352384]) simp_all
  then show ?thesis by (simp add: fsub_def)
qed

lemma step_progress: "fdiv (1 - 1 / 2 ^ 30) 1 = Inr (1 - 1 / 2 ^ 30)"
proof -
  have "fl (1 - 1 / 2 ^ 30) = 1 - 1 / 2 ^ 30"
    by (rule fl_exact [where k = 53 and m = 9007199246352384]) simp_all
  then show ?thesis by (simp add: fdiv_def)
qed

lemma step_centre: "fsub (1 - 1 / 2 ^ 30) 0.5 = 536870911 / 2 ^ 30"
proof -
  have "fl (536870911 / 2 ^ 30) = 536870911 / 2 ^ 30"
    by (rule fl_exact [where k = 54 and m = 9007199237963776]) simp_all
  then show ?thesis by (simp add: fsub_def)
qed

lemma step_angle: "fmul (536870911 / 2 ^ 30) math_pi = 7074237738851645 / 2 ^ 52"
proof -
  have "fl (536870911 / 2 ^ 30 * (884279719003555 / 2 ^ 48)) =
      of_int (rne (536870911 / 2 ^ 30 * (884279719003555 / 2 ^ 48) * 2 ^ 52)) / 2 ^ 52"
    by (rule fl_eval) simp_all
  also have "rne (536870911 / 2 ^ 30 * (884279719003555 / 2 ^ 48) * 2 ^ 52) = 7074237738851645"
    by (rule rne_near) simp
  finally show ?thesis by (simp add: fmul_def math_pi_def)
qed

lemma cos_angle_small:
  "\<bar>cos (7074237738851645 / 2 ^ 52 :: real)\<bar> \<le> 3 / 10 ^ 9"
proof -
  let ?x = "7074237738851645 / 2 ^ 52 :: real"
  have poly: "\<bar>\<Sum>m<16. cos_coeff m * ?x ^ m\<bar> \<le> 29 / 10 ^ 10"
    unfolding cos_poly16 by simp
  have "\<bar>?x\<bar> \<le> 1571 / 1000" by simp
  then have "\<bar>?x\<bar> ^ 16 \<le> (1571 / 1000) ^ 16" by (intro power_mono) simp_all
  then have "\<bar>?x\<bar> ^ 16 / fact 16 \<le> (1571 / 1000) ^ 16 / fact 16"
    by (intro divide_right_mono) simp_all
  also have "\<dots> \<le> 7 / 10 ^ 11" by (simp add: fact_numeral power_divide)
  finally have rem: "\<bar>cos ?x - (\<Sum>m<16. cos_coeff m * ?x ^ m)\<bar> \<le> 7 / 10 ^ 11"
    using cos_remainder16 [of ?x] by linarith
  define S where "S = (\<Sum>m<16. cos_coeff m * ?x ^ m)"
  have "\<bar>S\<bar> \<le> 29 / 10000000000" "\<bar>cos ?x - S\<bar> \<le> 7 / 100000000000"
    using poly rem by (simp_all add: S_def)
  then have "\<bar>cos ?x\<bar> \<le> 3 / 1000000000" by linarith
  then show ?thesis by simp
qed

lemma sin_angle_near_one:
  "1 - 1 / 2 ^ 55 \<le> sin (7074237738851645 / 2 ^ 52 :: real)"
proof -
  let ?x = "7074237738851645 / 2 ^ 52 :: real"
  have "(cos ?x)\<^sup>2 = \<bar>cos ?x\<bar> * \<bar>cos ?x\<bar>" by (simp add: power2_eq_square)
  also have "\<dots> \<le> 3 / 10 ^ 9 * (3 / 10 ^ 9)"
    by (intro mult_mono cos_angle_small) simp_all
  finally have c2: "(cos ?x)\<^sup>2 \<le> 1 / 2 ^ 55" by simp
  have pos: "0 < sin ?x" by (rule sin_gt_zero_02) simp_all
  have "(sin ?x)\<^sup>2 \<le> sin ?x * 1"
    unfolding power2_eq_square using pos by (intro mult_left_mono) simp_all
  moreover have "(sin ?x)\<^sup>2 = 1 - (cos ?x)\<^sup>2"
    using sin_cos_squared_add [of ?x] by linarith
  ultimately show ?thesis using c2 by linarith
qed

lemma step_sine: "math_sin (7074237738851645 / 2 ^ 52) = 1"
proof -
  have "fl (1 - 1 / 2 ^ 55) = of_int (rne ((1 - 1 / 2 ^ 55) * 2 ^ 53)) / 2 ^ 53"
    by (rule fl_eval) simp_all
  also have "rne ((1 - 1 / 2 ^ 55) * 2 ^ 53) = 2 ^ 53"
    by (rule rne_near) simp
  finally have "fl (1 - 1 / 2 ^ 55) = 1" by simp
  then have "1 \<le> fl (sin (7074237738851645 / 2 ^ 52))"
    using fl_mono [OF sin_angle_near_one] by simp
  moreover have "fl (sin (7074237738851645 / 2 ^ 52)) \<le> 1"
    using fl_mono [of "sin (7074237738851645 / 2 ^ 52)" 1] by (simp add: fl_one)
  ultimately show ?thesis by (simp add: math_sin_def)
qed

lemma step_smooth: "fl (fadd 1 1 / 2) = 1"
  by (simp add: fadd_def fl_two fl_one)

lemma step_span: "fsub (5224175567749775 / 2 ^ 54) (1080863910568919 / 2 ^ 55) =
    4683743612465316 / 2 ^ 54"
proof -
  let ?d = "5224175567749775 / 2 ^ 54 - 1080863910568919 / 2 ^ 55 :: real"
  have "fl ?d = of_int (rne (?d * 2 ^ 54)) / 2 ^ 54"
    by (rule fl_eval) simp_all
  also have "rne (?d * 2 ^ 54) = 4683743612465316"
    using rne_tie [of "?d * 2 ^ 54" 4683743612465315] by simp
  finally show ?thesis by (simp add: fsub_def)
qed

lemma step_scale: "fmul (4683743612465316 / 2 ^ 54) 1 = 4683743612465316 / 2 ^ 54"
proof -
  have "fl (4683743612465316 / 2 ^ 54) = 4683743612465316 / 2 ^ 54"
    by (rule fl_exact [where k = 54 and m = 4683743612465316]) simp_all
  then show ?thesis by (simp add: fmul_def)
qed

lemma step_sum: "fadd (1080863910568919 / 2 ^ 55) (4683743612465316 / 2 ^ 54) =
    5224175567749776 / 2 ^ 54"
proof -
  let ?b = "1080863910568919 / 2 ^ 55 + 4683743612465316 / 2 ^ 54 :: real"
  have "fl ?b = of_int (rne (?b * 2 ^ 54)) / 2 ^ 54"
    by (rule fl_eval) simp_all
  also have "rne (?b * 2 ^ 54) = 5224175567749776"
    using rne_tie [of "?b * 2 ^ 54" 5224175567749775] by simp
  finally show ?thesis by (simp add: fadd_def)
qed

text \<open>
  Claim C9 as stated keeps every returned brightness in the closed interval between
  \<^verbatim>\<open>from_brightness\<close> and \<^verbatim>\<open>to_brightness\<close>. In doubles a fade from 0.03 to 0.29 over
  one second, read just before it completes, returns 0.29000000000000004: the eased
  progress has rounded to 1.0, and 0.03 + (0.29 - 0.03) is not 0.29.
\<close>

theorem fade_double_overshoots_target:
  "FadeController_update_double (1 - 1 / 2 ^ 30)
     (start_fade (fl 0.03) (fl 0.29) 1 0 FadeController_init) =
     Inr (Some (5224175567749776 / 2 ^ 54), start_fade (fl 0.03) (fl 0.29) 1 0 FadeController_init)
   \<and> fl 0.03 < fl 0.29
   \<and> fl 0.29 < 5224175567749776 / 2 ^ 54"
proof -
  let ?s = "start_fade (fl 0.03) (fl 0.29) 1 0 FadeController_init"
  have fields: "fading ?s" "fade_start ?s = 0" "fade_duration ?s = 1"
    "fade_from ?s = 1080863910568919 / 2 ^ 55" "fade_to ?s = 5224175567749775 / 2 ^ 54"
    unfolding fl_0_03 fl_0_29 by (simp_all add: start_fade_def)
  have below: "min 1.0 (1 - 1 / 2 ^ 30 :: real) = 1 - 1 / 2 ^ 30"
    and open_session: "\<not> (1 - 1 / 2 ^ 30 :: real) \<ge> 1.0"
    by simp_all
  have "FadeController_update_double (1 - 1 / 2 ^ 30) ?s =
      Inr (Some (5224175567749776 / 2 ^ 54), ?s)"
    unfolding FadeController_update_double_def Let_def fields
    apply (simp only: step_elapsed step_progress sum.case below open_session if_True if_False
          not_True_eq_False not_False_eq_True simp_thms
          step_centre step_angle step_sine step_smooth step_span step_scale step_sum)
    apply (simp only: fields(1) simp_thms if_False)
    done
  moreover have "fl 0.03 < fl 0.29" "fl 0.29 < 5224175567749776 / 2 ^ 54"
    unfolding fl_0_03 fl_0_29 by simp_all
  ultimately show ?thesis by blast
qed

section \<open>Properties of the schedule window\<close>

lemma dtime_le_time_of_day:
  assumes "valid_dtime a" and "valid_dtime b"
  shows "dtime_le a b = (time_of_day a \<le> time_of_day b)"
  using assms
  unfolding dtime_le_def dtime_key_def time_of_day_def valid_dtime_def less_eq_prod_def less_prod_def
  by (simp) arith

lemma dtime_lt_time_of_day:
  assumes "valid_dtime a" and "valid_dtime b"
  shows "dtime_lt a b = (time_of_day a < time_of_day b)"
  using assms
  unfolding dtime_lt_def dtime_key_def time_of_day_def valid_dtime_def less_eq_prod_def less_prod_def
  by (simp) arith

lemma valid_hm: "h < 24 \<Longrightarrow> m < 60 \<Longrightarrow> valid_dtime (hm h m)"
  by (simp add: valid_dtime_def hm_def)

lemma is_within_schedule_refines:
  assumes "valid_dtime (start_time s)" and "valid_dtime (end_time s)" and "valid_dtime t"
  shows "is_within_schedule (Some t) clock s =
           spec_inside_window (time_of_day (start_time s)) (time_of_day (end_time s))
             (time_of_day t)"
  using assms
  by (simp add: is_within_schedule_def spec_inside_window_def
        dtime_le_time_of_day dtime_lt_time_of_day)

lemma is_within_schedule_default_time:
  "is_within_schedule None clock s = is_within_schedule (Some clock) clock' s"
  by (simp add: is_within_schedule_def)

text \<open>
  Claim C6. For times that \<^verbatim>\<open>datetime.time\<close> can hold, \<^verbatim>\<open>is_within_schedule\<close> answers as
  the window of the specification does on the time of day: with start \<le> end it is true
  iff start \<le> t < end, with start > end iff t \<ge> start or t < end; without an argument
  it tests the clock. For the window 07:00-20:00 it is false at 06:59, true at 07:00 and
  19:59, false at 20:00; for 20:00-07:00 it is true at 23:00 and 03:00, false at 10:00.
\<close>

theorem is_within_schedule_window:
  assumes "valid_dtime (start_time s)" and "valid_dtime (end_time s)" and "valid_dtime t"
  shows "is_within_schedule (Some t) clock s =
           spec_inside_window (time_of_day (start_time s)) (time_of_day (end_time s))
             (time_of_day t)
       \<and> is_within_schedule None t s =
           spec_inside_window (time_of_day (start_time s)) (time_of_day (end_time s))
             (time_of_day t)
       \<and> \<not> is_within_schedule (Some (hm 6 59)) clock
             \<lparr>enabled = True, start_time = hm 7 0, end_time = hm 20 0\<rparr>
       \<and> is_within_schedule (Some (hm 7 0)) clock
             \<lparr>enabled = True, start_time = hm 7 0, end_time = hm 20 0\<rparr>
       \<and> is_within_schedule (Some (hm 19 59)) clock
             \<lparr>enabled = True, start_time = hm 7 0, end_time = hm 20 0\<rparr>
       \<and> \<not> is_within_schedule (Some (hm 20 0)) clock
             \<lparr>enabled = True, start_time = hm 7 0, end_time = hm 20 0\<rparr>
       \<and> is_within_schedule (Some (hm 23 0)) clock
             \<lparr>enabled = True, start_time = hm 20 0, end_time = hm 7 0\<rparr>
       \<and> is_within_schedule (Some (hm 3 0)) clock
             \<lparr>enabled = True, start_time = hm 20 0, end_time = hm 7 0\<rparr>
       \<and> \<not> is_within_schedule (Some (hm 10 0)) clock
             \<lparr>enabled = True, start_time = hm 20 0, end_time = hm 7 0\<rparr>"
proof -
  have general: "is_within_schedule (Some t) c s =
      spec_inside_window (time_of_day (start_time s)) (time_of_day (end_time s))
        (time_of_day t)" for c
    by (rule is_within_schedule_refines [OF assms])
  have examples: "\<not> is_within_schedule (Some (hm 6 59)) clock
             \<lparr>enabled = True, start_time = hm 7 0, end_time = hm 20 0\<rparr>"
    "is_within_schedule (Some (hm 7 0)) clock
             \<lparr>enabled = True, start_time = hm 7 0, end_time = hm 20 0\<rparr>"
    "is_within_schedule (Some (hm 19 59)) clock
             \<lparr>enabled = True, start_time = hm 7 0, end_time = hm 20 0\<rparr>"
    "\<not> is_within_schedule (Some (hm 20 0)) clock
             \<lparr>enabled = True, start_time = hm 7 0, end_time = hm 20 0\<rparr>"
    "is_within_schedule (Some (hm 23 0)) clock
             \<lparr>enabled = True, start_time = hm 20 0, end_time = hm 7 0\<rparr>"
    "is_within_schedule (Some (hm 3 0)) clock
             \<lparr>enabled = True, start_time = hm 20 0, end_time = hm 7 0\<rparr>"
    "\<not> is_within_schedule (Some (hm 10 0)) clock
             \<lparr>enabled = True, start_time = hm 20 0, end_time = hm 7 0\<rparr>"
    by (simp_all add: is_within_schedule_def dtime_le_def dtime_lt_def dtime_key_def hm_def)
  show ?thesis
    using general [of clock] general [of t] examples
    by (simp add: is_within_schedule_default_time [of t s t])
qed

theorem is_within_schedule_window_witness:
  "is_within_schedule (Some (hm 23 30)) (hm 12 0)
      \<lparr>enabled = True, start_time = hm 20 0, end_time = hm 7 0\<rparr> =
     spec_inside_window (time_of_day (hm 20 0)) (time_of_day (hm 7 0)) (time_of_day (hm 23 30))
   \<and> is_within_schedule None (hm 23 30)
      \<lparr>enabled = True, start_time = hm 20 0, end_time = hm 7 0\<rparr> =
     spec_inside_window (time_of_day (hm 20 0)) (time_of_day (hm 7 0)) (time_of_day (hm 23 30))"
proof -
  let ?s = "\<lparr>enabled = True, start_time = hm 20 0, end_time = hm 7 0\<rparr>"
  have v: "valid_dtime (start_time ?s)" "valid_dtime (end_time ?s)" "valid_dtime (hm 23 30)"
    by (simp_all add: valid_hm)
  from is_within_schedule_window [OF v, of "hm 12 0"] show ?thesis
    by simp
qed

section \<open>Properties of the brightness wrapper\<close>

lemma py_int_zero: "py_int 0 = 0"
  by (simp add: py_int_def)

lemma run_command_forwarded:
  "forwarded (wrapped_bot (run_command k c)) =
     forwarded (wrapped_bot c) @ [spec_scaled (brightness_multiplier c) k]"
  by (cases k) (simp_all add: set_RGB_def set_all_RGB_def Let_def)

lemma run_command_brightness:
  "brightness_multiplier (run_command k c) = brightness_multiplier c"
  by (cases k) (simp_all add: set_RGB_def set_all_RGB_def Let_def)

lemma run_commands_brightness:
  "brightness_multiplier (run_commands ks c) = brightness_multiplier c"
  by (induction ks arbitrary: c) (simp_all add: run_command_brightness)

lemma run_commands_forwarded:
  "forwarded (wrapped_bot (run_commands ks c)) =
     forwarded (wrapped_bot c) @ map (spec_scaled (brightness_multiplier c)) ks"
  by (induction ks arbitrary: c)
     (simp_all add: run_command_forwarded run_command_brightness)

lemma fmul_zero: "fmul x 0 = 0"
  by (simp add: fmul_def fl_zero)

lemma channels_scaled_zero: "channels (spec_scaled 0 k) = [0, 0, 0]"
  by (cases k) (simp_all add: py_int_zero fmul_zero)

lemma fl_0_7: "fl 0.7 = 6305039478318694 / 2 ^ 53"
proof -
  have "fl 0.7 = of_int (rne (0.7 * 2 ^ 53)) / 2 ^ 53"
    by (rule fl_eval) simp_all
  also have "rne (0.7 * 2 ^ 53) = 6305039478318694"
    by (rule rne_near) simp
  finally show ?thesis by simp
qed

lemma fmul_10_0_7: "fmul 10 (fl 0.7) = 7"
proof -
  have "fl (10 * (6305039478318694 / 2 ^ 53)) =
      of_int (rne (10 * (6305039478318694 / 2 ^ 53) * 2 ^ 50)) / 2 ^ 50"
    by (rule fl_eval) simp_all
  also have "rne (10 * (6305039478318694 / 2 ^ 53) * 2 ^ 50) = 7881299347898368"
    using rne_tie [of "10 * (6305039478318694 / 2 ^ 53) * 2 ^ 50" 7881299347898367] by simp
  finally show ?thesis by (simp add: fmul_def fl_0_7)
qed

lemma py_int_of_int: "py_int (of_int n) = n"
  by (simp add: py_int_def)

lemma wrapper_example:
  "forwarded (wrapped_bot (set_all_RGB 10 10 10 (c\<lparr>brightness_multiplier := fl 0.7\<rparr>))) =
     forwarded (wrapped_bot c) @ [SetAllRGB 7 7 7]"
  using py_int_of_int [of 7] by (simp add: set_all_RGB_def Let_def fmul_10_0_7)

text \<open>
  Claim C10. A \<^verbatim>\<open>set_RGB\<close> or \<^verbatim>\<open>set_all_RGB\<close> call through the wrapper forwards each of
  the three channels multiplied, as a float, by the controller's brightness at the time of
  the call and cut to an integer, and so does every call of a run of such commands; at
  brightness 0 every forwarded channel is 0, whatever the colour and the command. At
  brightness 0.7 the channel 10 is forwarded as 7: the float product is 7.0.
\<close>

theorem wrapper_scales_every_channel:
  "forwarded (wrapped_bot (set_RGB led_id red green blue c)) =
     forwarded (wrapped_bot c) @
       [SetRGB led_id (py_int (fmul red (brightness_multiplier c)))
          (py_int (fmul green (brightness_multiplier c)))
          (py_int (fmul blue (brightness_multiplier c)))]
   \<and> forwarded (wrapped_bot (set_all_RGB red green blue c)) =
     forwarded (wrapped_bot c) @
       [SetAllRGB (py_int (fmul red (brightness_multiplier c)))
          (py_int (fmul green (brightness_multiplier c)))
          (py_int (fmul blue (brightness_multiplier c)))]
   \<and> forwarded (wrapped_bot (run_commands ks c)) =
     forwarded (wrapped_bot c) @ map (spec_scaled (brightness_multiplier c)) ks
   \<and> map channels (map (spec_scaled 0) ks) = replicate (length ks) [0, 0, 0]
   \<and> forwarded (wrapped_bot (set_RGB led_id red green blue (c\<lparr>brightness_multiplier := 0\<rparr>))) =
     forwarded (wrapped_bot c) @ [SetRGB led_id 0 0 0]
   \<and> forwarded (wrapped_bot (set_all_RGB red green blue (c\<lparr>brightness_multiplier := 0\<rparr>))) =
     forwarded (wrapped_bot c) @ [SetAllRGB 0 0 0]
   \<and> forwarded (wrapped_bot (set_all_RGB 10 10 10 (c\<lparr>brightness_multiplier := fl 0.7\<rparr>))) =
     forwarded (wrapped_bot c) @ [SetAllRGB 7 7 7]"
proof -
  have zeros: "map channels (map (spec_scaled 0) ks) = replicate (length ks) [0, 0, 0]"
    by (induction ks) (simp_all add: channels_scaled_zero)
  have general: "forwarded (wrapped_bot (set_RGB led_id red green blue c)) =
     forwarded (wrapped_bot c) @
       [SetRGB led_id (py_int (fmul red (brightness_multiplier c)))
          (py_int (fmul green (brightness_multiplier c)))
          (py_int (fmul blue (brightness_multiplier c)))]"
    "forwarded (wrapped_bot (set_all_RGB red green blue c)) =
     forwarded (wrapped_bot c) @
       [SetAllRGB (py_int (fmul red (brightness_multiplier c)))
          (py_int (fmul green (brightness_multiplier c)))
          (py_int (fmul blue (brightness_multiplier c)))]"
    "forwarded (wrapped_bot (set_RGB led_id red green blue (c\<lparr>brightness_multiplier := 0\<rparr>))) =
     forwarded (wrapped_bot c) @ [SetRGB led_id 0 0 0]"
    "forwarded (wrapped_bot (set_all_RGB red green blue (c\<lparr>brightness_multiplier := 0\<rparr>))) =
     forwarded (wrapped_bot c) @ [SetAllRGB 0 0 0]"
    by (simp_all add: set_RGB_def set_all_RGB_def Let_def py_int_zero fmul_zero)
  show ?thesis
    using general run_commands_forwarded [of ks c] zeros wrapper_example [of c]
    by (intro conjI)
qed

section \<open>Properties of the demo sequence\<close>

lemma set_effect_registered:
  assumes "effect_name \<in> set (available_effects c)" and "EFFECTS effect_name = Some inst"
  shows "set_effect effect_name c =
           (True, c\<lparr>current_effect_name := effect_name, current_effect := Some inst\<rparr>)"
  using assms by (simp add: set_effect_def create_effect_def)

lemma set_effect_unavailable:
  assumes "effect_name \<notin> set (available_effects c)"
  shows "set_effect effect_name c = (False, c)"
  using assms by (simp add: set_effect_def)

lemma EFFECTS_demo_names:
  "EFFECTS ''system_pulse'' = Some SystemPulseEffect"
  "EFFECTS ''load_rainbow'' = Some LoadRainbowEffect"
  "EFFECTS ''random_sparkle'' = Some RandomSparkleEffect"
  "EFFECTS ''thermal_gradient'' = Some ThermalGradientEffect"
  "EFFECTS ''load_bars'' = Some LoadBarsEffect"
  by (simp_all add: EFFECTS_def)

lemma start_demo_mode_fresh:
  assumes "\<not> demo_mode_active c"
    and "demo_mode_effects c = first_effect # others"
    and "first_effect \<in> set (available_effects c)"
    and "EFFECTS first_effect = Some inst"
  shows "start_demo_mode t0 c =
           (Inr True,
            c\<lparr>demo_mode_active := True, demo_mode_start_time := t0,
              demo_mode_previous_effect := Some (current_effect_name c),
              current_effect_name := first_effect, current_effect := Some inst\<rparr>)"
  using assms
  by (simp add: start_demo_mode_def py_index_def Let_def set_effect_registered)

lemma end_demo_mode_restores:
  assumes "demo_mode_previous_effect c = Some previous"
    and "previous \<in> set (available_effects c)"
    and "EFFECTS previous = Some inst"
  shows "end_demo_mode c =
           c\<lparr>demo_mode_active := False, current_effect_name := previous,
             current_effect := Some inst, demo_mode_previous_effect := None\<rparr>"
proof -
  have "previous \<noteq> []"
    using assms(3) by (auto simp: EFFECTS_def)
  then show ?thesis
    using assms by (simp add: end_demo_mode_def Let_def set_effect_registered)
qed

lemma update_demo_mode_finished:
  assumes "demo_mode_active c"
    and "demo_mode_duration c \<le> now - demo_mode_start_time c"
  shows "update_demo_mode now c = Inr (end_demo_mode c)"
  using assms by (simp add: update_demo_mode_def Let_def)

text \<open>Between 6 and 12 seconds into the 30 second demo of five effects the second one is
  selected, whatever effect is current.\<close>

lemma update_demo_mode_second_slice:
  assumes "demo_mode_active c"
    and "demo_mode_effects c = [e0, e1, e2, e3, e4]"
    and "demo_mode_duration c = 30"
    and "6 \<le> now - demo_mode_start_time c" and "now - demo_mode_start_time c < 12"
    and "e1 \<in> set (available_effects c)" and "EFFECTS e1 = Some inst"
    and "current_effect_name c \<noteq> e1"
  shows "update_demo_mode now c =
           Inr (c\<lparr>current_effect_name := e1, current_effect := Some inst\<rparr>)"
proof -
  let ?q = "(now - demo_mode_start_time c) / 6"
  have "1 \<le> ?q" and "?q < 2" using assms(4,5) by simp_all
  then have "py_int ?q = 1"
    by (simp add: py_int_def floor_eq_iff)
  then show ?thesis
    using assms
    by (simp add: update_demo_mode_def py_div_def py_index_def Let_def set_effect_registered)
qed

text \<open>
  Claim C5, amended. A demo is started at \<open>t0\<close> with the fixed list of five effects and a
  total duration of 30 s, on a controller whose configuration makes the five effects
  available and whose current effect is an available, registered one. The update at
  \<open>t0 + 6.5\<close> makes the second effect of the list current; the update at \<open>t0 + 31\<close> ends
  the demo and makes the effect that was current before the demo the current one again.
\<close>

theorem demo_sequence_second_effect_then_restore:
  assumes "\<not> demo_mode_active c"
    and "demo_mode_effects c =
           [''system_pulse'', ''load_rainbow'', ''random_sparkle'', ''thermal_gradient'',
            ''load_bars'']"
    and "demo_mode_duration c = 30"
    and "set (demo_mode_effects c) \<subseteq> set (available_effects c)"
    and "current_effect_name c \<in> set (available_effects c)"
    and "current_effect c = Some inst" and "EFFECTS (current_effect_name c) = Some inst"
  shows "\<exists>c1 c2 c3.
           start_demo_mode t0 c = (Inr True, c1)
         \<and> update_demo_mode (t0 + 6.5) c1 = Inr c2
         \<and> demo_mode_active c2
         \<and> current_effect_name c2 = demo_mode_effects c ! 1
         \<and> current_effect c2 = Some LoadRainbowEffect
         \<and> update_demo_mode (t0 + 31) c2 = Inr c3
         \<and> \<not> demo_mode_active c3
         \<and> current_effect_name c3 = current_effect_name c
         \<and> current_effect c3 = current_effect c"
proof -
  define c1 where "c1 =
    c\<lparr>demo_mode_active := True, demo_mode_start_time := t0,
      demo_mode_previous_effect := Some (current_effect_name c),
      current_effect_name := ''system_pulse'', current_effect := Some SystemPulseEffect\<rparr>"
  define c2 where "c2 =
    c1\<lparr>current_effect_name := ''load_rainbow'', current_effect := Some LoadRainbowEffect\<rparr>"
  define c3 where "c3 =
    c2\<lparr>demo_mode_active := False, current_effect_name := current_effect_name c,
       current_effect := Some inst, demo_mode_previous_effect := None\<rparr>"
  have pulse: "''system_pulse'' \<in> set (available_effects c)"
    and rainbow: "''load_rainbow'' \<in> set (available_effects c)"
    using assms(2,4) by auto
  have s1: "start_demo_mode t0 c = (Inr True, c1)"
    unfolding c1_def
    by (rule start_demo_mode_fresh [OF assms(1,2) pulse EFFECTS_demo_names(1)])
  have s2: "update_demo_mode (t0 + 6.5) c1 = Inr c2"
    unfolding c2_def
    by (rule update_demo_mode_second_slice [where ?e0.0 = "''system_pulse''"
          and ?e2.0 = "''random_sparkle''" and ?e3.0 = "''thermal_gradient''"
          and ?e4.0 = "''load_bars''"])
       (simp_all add: c1_def assms(2,3) rainbow EFFECTS_demo_names)
  have "update_demo_mode (t0 + 31) c2 = Inr (end_demo_mode c2)"
    by (rule update_demo_mode_finished) (simp_all add: c2_def c1_def assms(3))
  moreover have "end_demo_mode c2 = c3"
    unfolding c3_def
    by (rule end_demo_mode_restores) (simp_all add: c2_def c1_def assms(5,7))
  ultimately have s3: "update_demo_mode (t0 + 31) c2 = Inr c3" by simp
  have "demo_mode_active c2" and "current_effect_name c2 = demo_mode_effects c ! 1"
    and "current_effect c2 = Some LoadRainbowEffect"
    and "\<not> demo_mode_active c3" and "current_effect_name c3 = current_effect_name c"
    and "current_effect c3 = current_effect c"
    by (simp_all add: c3_def c2_def c1_def assms(2,6))
  with s1 s2 s3 show ?thesis by blast
qed

theorem demo_sequence_witness:
  "\<exists>c1 c2 c3.
       start_demo_mode 100
         (snd (set_effect ''thermal_gradient''
            (LightBarController_init
               [''system_pulse'', ''load_rainbow'', ''random_sparkle'', ''thermal_gradient'',
                ''load_bars'']
               ''thermal_gradient'' 1.0 ''fade_in''))) = (Inr True, c1)
     \<and> update_demo_mode (100 + 6.5) c1 = Inr c2
     \<and> demo_mode_active c2
     \<and> current_effect_name c2 = ''load_rainbow''
     \<and> current_effect c2 = Some LoadRainbowEffect
     \<and> update_demo_mode (100 + 31) c2 = Inr c3
     \<and> \<not> demo_mode_active c3
     \<and> current_effect_name c3 = ''thermal_gradient''
     \<and> current_effect c3 = Some ThermalGradientEffect"
proof -
  let ?c = "snd (set_effect ''thermal_gradient''
            (LightBarController_init
               [''system_pulse'', ''load_rainbow'', ''random_sparkle'', ''thermal_gradient'',
                ''load_bars'']
               ''thermal_gradient'' 1.0 ''fade_in''))"
  have facts: "\<not> demo_mode_active ?c"
    "demo_mode_effects ?c =
       [''system_pulse'', ''load_rainbow'', ''random_sparkle'', ''thermal_gradient'',
        ''load_bars'']"
    "demo_mode_duration ?c = 30"
    "set (demo_mode_effects ?c) \<subseteq> set (available_effects ?c)"
    "current_effect_name ?c \<in> set (available_effects ?c)"
    "current_effect ?c = Some ThermalGradientEffect"
    "EFFECTS (current_effect_name ?c) = Some ThermalGradientEffect"
    by (simp_all add: set_effect_def create_effect_def EFFECTS_def LightBarController_init_def)
  have name: "current_effect_name ?c = ''thermal_gradient''"
    and nth: "demo_mode_effects ?c ! 1 = ''load_rainbow''"
    by (simp_all add: set_effect_def create_effect_def EFFECTS_def LightBarController_init_def)
  from demo_sequence_second_effect_then_restore [OF facts, of 100]
  show ?thesis
    unfolding name nth facts(6) .
qed

text \<open>
  Claim C5 as stated fixes the list and the duration only. \<^verbatim>\<open>set_effect\<close> refuses a name
  that the configuration does not list under \<^verbatim>\<open>available_effects\<close>: with only
  \<^verbatim>\<open>system_pulse\<close> and \<^verbatim>\<open>load_bars\<close> available, the update at \<open>t0 + 6.5\<close> selects the
  second effect of the list, is refused, and the first effect stays current. And a prior
  effect name that is not available (a default effect the configuration does not list) is
  not restored when the demo ends.
\<close>

theorem demo_skips_unavailable_effect:
  "\<exists>c1 c2.
       demo_mode_effects
         (snd (set_effect ''system_pulse''
            (LightBarController_init [''system_pulse'', ''load_bars''] ''system_pulse'' 1.0
               ''fade_in''))) =
         [''system_pulse'', ''load_rainbow'', ''random_sparkle'', ''thermal_gradient'',
          ''load_bars'']
     \<and> demo_mode_duration
         (snd (set_effect ''system_pulse''
            (LightBarController_init [''system_pulse'', ''load_bars''] ''system_pulse'' 1.0
               ''fade_in''))) = 30
     \<and> start_demo_mode 100
         (snd (set_effect ''system_pulse''
            (LightBarController_init [''system_pulse'', ''load_bars''] ''system_pulse'' 1.0
               ''fade_in''))) = (Inr True, c1)
     \<and> update_demo_mode (100 + 6.5) c1 = Inr c2
     \<and> demo_mode_active c2
     \<and> current_effect_name c2 = ''system_pulse''
     \<and> current_effect c2 = Some SystemPulseEffect
     \<and> (\<exists>d1 d2 d3.
           current_effect_name
             (LightBarController_init
                [''system_pulse'', ''load_rainbow'', ''random_sparkle'', ''thermal_gradient'',
                 ''load_bars'']
                ''aurora'' 1.0 ''fade_in'') = ''aurora''
         \<and> start_demo_mode 100
             (LightBarController_init
                [''system_pulse'', ''load_rainbow'', ''random_sparkle'', ''thermal_gradient'',
                 ''load_bars'']
                ''aurora'' 1.0 ''fade_in'') = (Inr True, d1)
         \<and> update_demo_mode (100 + 6.5) d1 = Inr d2
         \<and> update_demo_mode (100 + 31) d2 = Inr d3
         \<and> \<not> demo_mode_active d3
         \<and> current_effect_name d3 = ''load_rainbow'')"
  by (simp add: end_demo_mode_def start_demo_mode_def update_demo_mode_def set_effect_def create_effect_def
        EFFECTS_def LightBarController_init_def py_index_def py_div_def py_int_def Let_def)

section \<open>Properties of the control check\<close>

lemma set_effect_frame:
  "brightness_multiplier (snd (set_effect effect_name c)) = brightness_multiplier c"
  "wrapped_bot (snd (set_effect effect_name c)) = wrapped_bot c"
  "fade_controller (snd (set_effect effect_name c)) = fade_controller c"
  by (simp_all add: set_effect_def Let_def split: sum.splits)

lemma start_demo_mode_frame:
  "brightness_multiplier (snd (start_demo_mode now c)) = brightness_multiplier c"
  "wrapped_bot (snd (start_demo_mode now c)) = wrapped_bot c"
  "fade_controller (snd (start_demo_mode now c)) = fade_controller c"
  by (simp_all add: start_demo_mode_def Let_def set_effect_frame split: sum.splits)

lemma check_demo_flag_frame:
  "brightness_multiplier (fst (check_demo_flag control now c)) = brightness_multiplier c"
  "wrapped_bot (fst (check_demo_flag control now c)) = wrapped_bot c"
  "fade_controller (fst (check_demo_flag control now c)) = fade_controller c"
  by (simp_all add: check_demo_flag_def start_demo_mode_frame)

lemma check_control_commands_disabled_lit:
  assumes "ctl_enabled control = Some False" and "0 < brightness_multiplier c"
  shows "brightness_multiplier (fst (check_control_commands control i2c_fails now c)) = 0"
    and "forwarded (wrapped_bot (fst (check_control_commands control i2c_fails now c))) =
           forwarded (wrapped_bot c) @ [TurnOff]"
    and "fade_controller (fst (check_control_commands control i2c_fails now c)) =
           fade_controller c"
  using assms
  by (simp_all add: check_control_commands_def Let_def check_demo_flag_frame turn_off_def)

lemma check_control_commands_disabled_dark:
  assumes "ctl_enabled control = Some False" and "brightness_multiplier c \<le> 0"
  shows "brightness_multiplier (fst (check_control_commands control i2c_fails now c)) =
           brightness_multiplier c"
    and "wrapped_bot (fst (check_control_commands control i2c_fails now c)) = wrapped_bot c"
    and "fade_controller (fst (check_control_commands control i2c_fails now c)) =
           fade_controller c"
  using assms
  by (simp_all add: check_control_commands_def Let_def check_demo_flag_frame)

lemma control_disabled_outcome:
  assumes "ctl_enabled control = Some False"
  shows "(0 < brightness_multiplier c \<longrightarrow>
            brightness_multiplier (fst (check_control_commands control i2c_fails now c)) = 0
          \<and> forwarded (wrapped_bot (fst (check_control_commands control i2c_fails now c))) =
              forwarded (wrapped_bot c) @ [TurnOff])
       \<and> (brightness_multiplier c \<le> 0 \<longrightarrow>
            brightness_multiplier (fst (check_control_commands control i2c_fails now c)) =
              brightness_multiplier c
          \<and> forwarded (wrapped_bot (fst (check_control_commands control i2c_fails now c))) =
              forwarded (wrapped_bot c))
       \<and> brightness_multiplier (fst (check_control_commands control i2c_fails now c)) \<le> 0
       \<and> fade_controller (fst (check_control_commands control i2c_fails now c)) =
            fade_controller c"
proof (cases "0 < brightness_multiplier c")
  case True
  from check_control_commands_disabled_lit [OF assms True, of i2c_fails now] True
  show ?thesis by simp
next
  case False
  then have dark: "brightness_multiplier c \<le> 0" by simp
  from check_control_commands_disabled_dark [OF assms dark, of i2c_fails now] dark
  show ?thesis by simp
qed

text \<open>
  Claim C3, amended. When the control document read in a control check has
  \<^verbatim>\<open>enabled = false\<close>: if the brightness multiplier is positive it becomes 0 and one
  \<^verbatim>\<open>turn_off\<close> is issued, whatever the selected effect, the brightness value and the fade
  session are; if it is already 0 or below it stays as it is and nothing is issued. Either
  way the multiplier is not positive afterwards, and the fade session is left as it was.
\<close>

theorem disable_forces_off_when_lit:
  assumes "ctl_enabled control = Some False"
  shows "(0 < brightness_multiplier c \<longrightarrow>
            brightness_multiplier (fst (check_control_commands control i2c_fails now c)) = 0
          \<and> forwarded (wrapped_bot (fst (check_control_commands control i2c_fails now c))) =
              forwarded (wrapped_bot c) @ [TurnOff])
       \<and> (brightness_multiplier c \<le> 0 \<longrightarrow>
            brightness_multiplier (fst (check_control_commands control i2c_fails now c)) =
              brightness_multiplier c
          \<and> forwarded (wrapped_bot (fst (check_control_commands control i2c_fails now c))) =
              forwarded (wrapped_bot c))
       \<and> brightness_multiplier (fst (check_control_commands control i2c_fails now c)) \<le> 0
       \<and> fade_controller (fst (check_control_commands control i2c_fails now c)) =
            fade_controller c"
  by (rule control_disabled_outcome [OF assms])

theorem disable_forces_off_when_lit_witness:
  "brightness_multiplier (fst (check_control_commands
       (control_defaults\<lparr>ctl_enabled := Some False\<rparr>) False 10
       ((LightBarController_init [''system_pulse'', ''load_bars''] ''load_bars'' 1.0 ''fade_in'')
          \<lparr>brightness_multiplier := 0.4,
           fade_controller := start_fade 0 1 3 9 FadeController_init\<rparr>))) = 0
   \<and> forwarded (wrapped_bot (fst (check_control_commands
       (control_defaults\<lparr>ctl_enabled := Some False\<rparr>) False 10
       ((LightBarController_init [''system_pulse'', ''load_bars''] ''load_bars'' 1.0 ''fade_in'')
          \<lparr>brightness_multiplier := 0.4,
           fade_controller := start_fade 0 1 3 9 FadeController_init\<rparr>)))) = [TurnOff]
   \<and> is_fading (fade_controller (fst (check_control_commands
       (control_defaults\<lparr>ctl_enabled := Some False\<rparr>) False 10
       ((LightBarController_init [''system_pulse'', ''load_bars''] ''load_bars'' 1.0 ''fade_in'')
          \<lparr>brightness_multiplier := 0.4,
           fade_controller := start_fade 0 1 3 9 FadeController_init\<rparr>))))"
proof -
  let ?control = "control_defaults\<lparr>ctl_enabled := Some False\<rparr>"
  let ?c = "(LightBarController_init [''system_pulse'', ''load_bars''] ''load_bars'' 1.0 ''fade_in'')
          \<lparr>brightness_multiplier := 0.4,
           fade_controller := start_fade 0 1 3 9 FadeController_init\<rparr>"
  have off: "ctl_enabled ?control = Some False" by simp
  have lit: "0 < brightness_multiplier ?c" by simp
  have before: "forwarded (wrapped_bot ?c) = []"
    by (simp add: LightBarController_init_def BrightnessWrapper_init_def)
  have fade: "is_fading (fade_controller ?c)"
    by (simp add: is_fading_def start_fade_def)
  from disable_forces_off_when_lit [OF off, of ?c False 10] lit before fade
  show ?thesis by simp
qed

text \<open>
  Claim C3 as stated promises a hardware clear for every prior state. A controller that
  booted outside the schedule has brightness 0; a control check that reads
  \<^verbatim>\<open>enabled = false\<close> then issues no call at all.
\<close>

theorem disable_when_dark_issues_no_clear:
  "ctl_enabled (control_defaults\<lparr>ctl_enabled := Some False\<rparr>) = Some False
   \<and> forwarded (wrapped_bot (fst (check_control_commands
        (control_defaults\<lparr>ctl_enabled := Some False\<rparr>) False 10
        (LightBarController_init [''system_pulse'', ''load_bars''] ''system_pulse'' 1.0
           ''stay_off'')))) = []"
  by (simp add: check_control_commands_def check_demo_flag_def control_defaults_def
        LightBarController_init_def BrightnessWrapper_init_def Let_def)

text \<open>
  The same in the loop of \<^verbatim>\<open>run\<close>: the fade is updated first, and the control check
  then works on the brightness the fade has just returned.
\<close>

lemma update_double_returns:
  assumes "fading s" and "fade_duration s \<noteq> 0"
  shows "\<exists>v f. FadeController_update_double now s = Inr (Some v, f)"
  using update_double_active [OF assms, of now] by blast

lemma run_iteration_disabled_during_fade:
  assumes "ctl_enabled control = Some False"
    and "control_check_interval c < loop_start - last_control_check c"
    and "fading (fade_controller c)" and "0 < fade_duration (fade_controller c)"
  shows "\<exists>v f c' w.
           FadeController_update_double t_update (fade_controller c) = Inr (Some v, f)
         \<and> run_iteration None loop_start t_start t_update t_demo control i2c_fails c =
             Inr (c', w)
         \<and> brightness_multiplier c' = (if 0 < v then 0 else v)
         \<and> forwarded (wrapped_bot c') =
             forwarded (wrapped_bot c) @ (if 0 < v then [TurnOff] else [])
         \<and> fade_controller c' = f"
proof -
  have "fade_duration (fade_controller c) \<noteq> 0" using assms(4) by simp
  from update_double_returns [OF assms(3) this, of t_update]
  obtain v f where upd:
    "FadeController_update_double t_update (fade_controller c) = Inr (Some v, f)"
    by blast
  let ?c2 = "c\<lparr>fade_controller := f, brightness_multiplier := v\<rparr>"
  let ?r = "check_control_commands control i2c_fails t_demo ?c2"
  have run: "run_iteration None loop_start t_start t_update t_demo control i2c_fails c =
      Inr ((fst ?r)\<lparr>last_control_check := loop_start\<rparr>, snd ?r)"
    using assms(2) upd by (simp add: run_iteration_def Let_def)
  have "brightness_multiplier (fst ?r) = (if 0 < v then 0 else v)"
    and "forwarded (wrapped_bot (fst ?r)) =
           forwarded (wrapped_bot c) @ (if 0 < v then [TurnOff] else [])"
    and "fade_controller (fst ?r) = f"
    using control_disabled_outcome [OF assms(1), of ?c2 i2c_fails t_demo]
    by (auto simp: not_less)
  with upd run show ?thesis by simp
qed

text \<open>The brightness of an enabled control document, in doubles.\<close>

lemma fl_0_01: "fl 0.01 = 5764607523034235 / 2 ^ 59"
proof -
  have "fl 0.01 = of_int (rne (0.01 * 2 ^ 59)) / 2 ^ 59"
    by (rule fl_eval) simp_all
  also have "rne (0.01 * 2 ^ 59) = 5764607523034235"
    by (rule rne_near) simp
  finally show ?thesis by simp
qed

lemma fl_0_51: "fl (51 / 100) = 4593671619917906 / 2 ^ 53"
proof -
  have "fl (51 / 100) = of_int (rne (51 / 100 * 2 ^ 53)) / 2 ^ 53"
    by (rule fl_eval) simp_all
  also have "rne (51 / 100 * 2 ^ 53) = 4593671619917906"
    by (rule rne_near) simp
  finally show ?thesis by simp
qed

lemma fsub_0_51_half: "fsub (4593671619917906 / 2 ^ 53) (1 / 2) = 5764607523034240 / 2 ^ 59"
proof -
  have "fl (5764607523034240 / 2 ^ 59) = 5764607523034240 / 2 ^ 59"
    by (rule fl_exact [where k = 59 and m = 5764607523034240]) simp_all
  then show ?thesis by (simp add: fsub_def)
qed

text \<open>A control document asking for 51 percent against a brightness of 0.5 is applied:
  the float difference exceeds the float 0.01, the exact one does not.\<close>

lemma apply_enabled_51_against_half:
  assumes "ctl_effect control = Some (current_effect_name c)"
    and "ctl_brightness control = Some 51" and "ctl_demo_mode control = Some False"
    and "\<not> fading (fade_controller c)" and "brightness_multiplier c = 1 / 2"
  shows "brightness_multiplier (fst (apply_enabled control now c)) = fl (51 / 100)"
proof -
  have "fsub (fl (51 / 100)) (brightness_multiplier c) = 5764607523034240 / 2 ^ 59"
    unfolding assms(5) fl_0_51 by (rule fsub_0_51_half)
  then have "\<bar>fsub (fl (51 / 100)) (brightness_multiplier c)\<bar> > fl 0.01"
    unfolding fl_0_01 by simp
  then show ?thesis
    using assms(1-4)
    by (simp add: apply_enabled_def check_demo_flag_def is_fading_def Let_def)
qed

section \<open>Randomness during the demo\<close>

text \<open>
  \<^verbatim>\<open>update_effect\<close> reads none of the demo fields: the randomness it passes is
  \<^verbatim>\<open>self.calculate_randomness()\<close>, demo or not.
\<close>

lemma update_effect_ignores_demo:
  "update_effect (c\<lparr>demo_mode_active := a, demo_mode_start_time := t,
                    demo_mode_previous_effect := p\<rparr>) = update_effect c"
  by (cases "current_effect c")
     (simp_all add: update_effect_def LightBarController_calculate_randomness_def Let_def)

text \<open>
  Claim C2 says that during a demo every effect's update receives the demo override,
  ramping from 1.0 to 5.0, and that the live value is ignored. The code computes the
  override in \<^verbatim>\<open>calculate_randomness_override\<close> but never calls it. With idle metrics
  (cpu 0, ram 0, 50 degrees) and a demo started at 100, halfway through at 115 the override
  is 3.0, and the effect is updated with the live value 1.0.
\<close>

theorem demo_randomness_is_live_value:
  "\<exists>c1 c2.
       start_demo_mode 100
         (snd (set_effect ''system_pulse''
            (LightBarController_init
               [''system_pulse'', ''load_rainbow'', ''random_sparkle'', ''thermal_gradient'',
                ''load_bars'']
               ''system_pulse'' 1.0 ''fade_in''))) = (Inr True, c1)
     \<and> update_demo_mode 115 c1 = Inr c2
     \<and> demo_mode_active c2
     \<and> calculate_randomness_override 115 c2 = Inr (Some 3)
     \<and> update_effect c2 = Some (EffectUpdate RandomSparkleEffect [0] 1)"
  by (simp add: start_demo_mode_def update_demo_mode_def set_effect_def create_effect_def
        EFFECTS_def LightBarController_init_def py_index_def py_div_def py_int_def
        calculate_randomness_override_def update_effect_def
        LightBarController_calculate_randomness_def Let_def)

section \<open>Properties of the telemetry health check\<close>

text \<open>
  A check that is not answered from the cache judges the document by its age, and calls a
  missing or unreadable file unhealthy.
\<close>

lemma check_performed_verdict:
  assumes "check_interval s \<le> now - last_check_time s"
  shows "fst (fst (check_oled_health now (Document \<lparr>timestamp = Some T\<rparr>) s)) = (now - T \<le> 5)"
    and "\<not> fst (fst (check_oled_health now NotExists s))"
    and "\<not> fst (fst (check_oled_health now DecodeFails s))"
    and "\<not> fst (fst (check_oled_health now OtherFails s))"
  using assms
  by (auto simp: check_oled_health_def STALE_THRESHOLD_def Let_def)

text \<open>
  When the recorded status is unhealthy, a healthy check arms the recovery flash for the
  two seconds that follow; a healthy check after a healthy one leaves the window alone, so
  the flash expires on its own.
\<close>

lemma recovery_flash_window:
  assumes "check_interval s \<le> now - last_check_time s"
    and "last_health_status s = Some (False, d)" and "now - T \<le> 5"
  shows "is_showing_recovery_flash t
           (snd (check_oled_health now (Document \<lparr>timestamp = Some T\<rparr>) s)) = (t < now + 2)"
  using assms
  by (simp add: check_oled_health_def STALE_THRESHOLD_def Let_def none_or_healthy_def
        is_showing_recovery_flash_def)

lemma healthy_check_keeps_window:
  assumes "check_interval s \<le> now - last_check_time s"
    and "last_health_status s = Some (True, d)" and "now - T \<le> 5"
  shows "oled_recovery_flash_until
           (snd (check_oled_health now (Document \<lparr>timestamp = Some T\<rparr>) s)) =
         oled_recovery_flash_until s"
  using assms
  by (simp add: check_oled_health_def STALE_THRESHOLD_def Let_def none_or_healthy_def)

text \<open>
  Claim C8 counts an unparseable file as unhealthy and promises the recovery flash on every
  change from unhealthy to healthy. The handlers of the two exceptions return the unhealthy
  verdict without recording it, as the branches for a missing file and for a stale document
  do. So after healthy (1000), unparseable (1010), healthy (1020) no flash is shown at 1020,
  while the same run with a missing file at 1010 shows it.
\<close>

theorem unparseable_recovery_shows_no_flash:
  "\<exists>s1 s2 s3 d1 d3.
       check_oled_health 1000 (Document \<lparr>timestamp = Some 999\<rparr>) OLEDSync_init
         = ((True, d1), s1)
     \<and> check_oled_health 1010 DecodeFails s1 = ((False, None), s2)
     \<and> check_oled_health 1020 (Document \<lparr>timestamp = Some 1019\<rparr>) s2 = ((True, d3), s3)
     \<and> \<not> is_showing_recovery_flash 1020 s3
     \<and> is_showing_recovery_flash 1020
          (snd (check_oled_health 1020 (Document \<lparr>timestamp = Some 1019\<rparr>)
             (snd (check_oled_health 1010 NotExists s1))))"
  by (simp add: check_oled_health_def OLEDSync_init_def STALE_THRESHOLD_def Let_def
        none_or_healthy_def is_showing_recovery_flash_def)

end
